theory Spec2Isabelle
  imports Complex_Main "HOL-Library.AList" "HOL-Library.Multiset"
begin

section \<open>csv\_diff/core.py: the data model\<close>

text \<open>
  A loaded row is a Python \<open>Dict[str, str]\<close>.  It is modelled as an association list in
  insertion order; \<open>row_get r k d\<close> is \<open>r.get(k, d)\<close>.  Reading the files
  (\<open>_read_csv\<close>) and the raw text diff are input/output and stay outside: the comparison
  functions below take the loaded headers and rows.
\<close>

type_synonym row = "(string \<times> string) list"

definition row_get :: "row \<Rightarrow> string \<Rightarrow> string \<Rightarrow> string" where
  "row_get r k d = (case map_of r k of None \<Rightarrow> d | Some v \<Rightarrow> v)"

record CellChange =
  column :: string
  old :: string
  new :: string

text \<open>\<open>RowChange.key\<close> is a tuple of strings (keyed and multiset mode) or the one-element
  tuple \<open>(idx,)\<close> (ordered mode).\<close>

datatype key = StrKey "string list" | IdxKey nat

record RowChange =
  kind :: string
  key :: key
  changes :: "CellChange list"
  row_old :: "row option"
  row_new :: "row option"

record DiffResult =
  added :: "RowChange list"
  removed :: "RowChange list"
  modified :: "RowChange list"
  raw_diff :: "string option"

text \<open>The error kind the specification names.  No statement of core.py raises it (or any
  other exception) once the two files are loaded.\<close>

datatype error = ConfigurationError

section \<open>csv\_diff/core.py: the operations\<close>

text \<open>\<open>list(dict.fromkeys(xs))\<close>: the elements of \<open>xs\<close> in order of first occurrence.\<close>

definition dict_fromkeys :: "'a list \<Rightarrow> 'a list" where
  "dict_fromkeys xs = fold (\<lambda>x acc. if x \<in> set acc then acc else acc @ [x]) xs []"

text \<open>\<open>_make_key\<close>: \<open>tuple(row.get(k, "") for k in keys)\<close>.\<close>

definition make_key :: "row \<Rightarrow> string list \<Rightarrow> string list" where
  "make_key r keys = map (\<lambda>k. row_get r k '''') keys"

text \<open>The inner loop \<open>for col in all_columns\<close> of both comparison functions.\<close>

definition cell_changes :: "string list \<Rightarrow> row \<Rightarrow> row \<Rightarrow> CellChange list" where
  "cell_changes all_columns r1 r2 =
     concat (map (\<lambda>col.
       let v1 = row_get r1 col ''''; v2 = row_get r2 col ''''
       in if v1 \<noteq> v2 then [\<lparr>column = col, old = v1, new = v2\<rparr>] else []) all_columns)"

text \<open>The dict comprehension \<open>{_make_key(r, keys): r for r in rows}\<close>: a later row with
  the same key replaces the value and keeps the position of the key.\<close>

definition key_map :: "row list \<Rightarrow> string list \<Rightarrow> (string list \<times> row) list" where
  "key_map rows keys = fold (\<lambda>r m. AList.update (make_key r keys) r m) rows []"

text \<open>
  \<open>_compare_unordered\<close>.  The source iterates over the Python sets
  \<open>map1.keys() - map2.keys()\<close>, \<open>map2.keys() - map1.keys()\<close> and
  \<open>map1.keys() & map2.keys()\<close>, whose iteration order Python leaves unspecified; the model
  lists them in the insertion order of the dict they are drawn from.  Every statement below
  about the three result lists is independent of that order.
\<close>

definition compare_unordered ::
  "string list \<Rightarrow> row list \<Rightarrow> string list \<Rightarrow> row list \<Rightarrow> string list
     \<Rightarrow> RowChange list \<times> RowChange list \<times> RowChange list" where
  "compare_unordered headers1 rows1 headers2 rows2 keys =
    (let map1 = key_map rows1 keys;
         map2 = key_map rows2 keys;
         all_columns = dict_fromkeys (headers1 @ headers2);
         removed = concat (map (\<lambda>(k, r).
             if k \<notin> set (map fst map2)
             then [\<lparr>kind = ''removed'', key = StrKey k, changes = [],
                    row_old = Some r, row_new = None\<rparr>] else []) map1);
         added = concat (map (\<lambda>(k, r).
             if k \<notin> set (map fst map1)
             then [\<lparr>kind = ''added'', key = StrKey k, changes = [],
                    row_old = None, row_new = Some r\<rparr>] else []) map2);
         modified = concat (map (\<lambda>(k, r1).
             case map_of map2 k of
               None \<Rightarrow> []
             | Some r2 \<Rightarrow>
                 (let changes = cell_changes all_columns r1 r2
                  in if changes \<noteq> []
                     then [\<lparr>kind = ''modified'', key = StrKey k, changes = changes,
                            row_old = Some r1, row_new = Some r2\<rparr>] else [])) map1)
     in (added, removed, modified))"

text \<open>\<open>_compare_ordered\<close>: one pass of the loop \<open>for idx in range(max_len)\<close>, then the
  loop.  \<open>rows2 ! idx\<close> is read only where \<open>idx < length rows2\<close>, likewise \<open>rows1\<close>.\<close>

definition ordered_step ::
  "row list \<Rightarrow> row list \<Rightarrow> string list \<Rightarrow> nat
     \<Rightarrow> RowChange list \<times> RowChange list \<times> RowChange list
     \<Rightarrow> RowChange list \<times> RowChange list \<times> RowChange list" where
  "ordered_step rows1 rows2 all_columns idx =
    (\<lambda>(added, removed, modified).
      if idx \<ge> length rows1
      then (added @ [\<lparr>kind = ''added'', key = IdxKey idx, changes = [],
                       row_old = None, row_new = Some (rows2 ! idx)\<rparr>], removed, modified)
      else if idx \<ge> length rows2
      then (added, removed @ [\<lparr>kind = ''removed'', key = IdxKey idx, changes = [],
                       row_old = Some (rows1 ! idx), row_new = None\<rparr>], modified)
      else
        (let r1 = rows1 ! idx; r2 = rows2 ! idx;
             changes = cell_changes all_columns r1 r2
         in if changes \<noteq> []
            then (added, removed,
                  modified @ [\<lparr>kind = ''modified'', key = IdxKey idx, changes = changes,
                                row_old = Some r1, row_new = Some r2\<rparr>])
            else (added, removed, modified)))"

definition compare_ordered ::
  "string list \<Rightarrow> row list \<Rightarrow> string list \<Rightarrow> row list
     \<Rightarrow> RowChange list \<times> RowChange list \<times> RowChange list" where
  "compare_ordered headers1 rows1 headers2 rows2 =
    (let all_columns = dict_fromkeys (headers1 @ headers2);
         max_len = max (length rows1) (length rows2)
     in fold (ordered_step rows1 rows2 all_columns) [0..<max_len] ([], [], []))"

text \<open>
  \<open>collections.Counter\<close> over a sequence, as an association list from element to count
  in order of first occurrence, and \<open>Counter.__sub__\<close>: the elements of the left counter
  whose count exceeds the right one's, with the difference, followed by the elements only
  the right counter has with a negative count.
\<close>

definition counter_get :: "('a \<times> int) list \<Rightarrow> 'a \<Rightarrow> int" where
  "counter_get c x = (case map_of c x of None \<Rightarrow> 0 | Some n \<Rightarrow> n)"

definition counter :: "'a list \<Rightarrow> ('a \<times> int) list" where
  "counter xs = fold (\<lambda>x c. AList.update x (counter_get c x + 1) c) xs []"

definition counter_sub :: "('a \<times> int) list \<Rightarrow> ('a \<times> int) list \<Rightarrow> ('a \<times> int) list" where
  "counter_sub c other =
     concat (map (\<lambda>(elem, count).
        let newcount = count - counter_get other elem
        in if newcount > 0 then [(elem, newcount)] else []) c)
     @ concat (map (\<lambda>(elem, count).
        if elem \<notin> set (map fst c) \<and> count < 0 then [(elem, 0 - count)] else []) other)"

definition to_tuple :: "string list \<Rightarrow> row \<Rightarrow> string list" where
  "to_tuple tuple_headers r = map (\<lambda>h. row_get r h '''') tuple_headers"

text \<open>The \<open>else\<close> branch of \<open>compare_csv_files\<close> (lines 194 to 214).\<close>

definition compare_multiset ::
  "string list \<Rightarrow> row list \<Rightarrow> string list \<Rightarrow> row list
     \<Rightarrow> RowChange list \<times> RowChange list \<times> RowChange list" where
  "compare_multiset headers1 rows1 headers2 rows2 =
    (let tuple_headers = dict_fromkeys (headers1 @ headers2);
         c1 = counter (map (to_tuple tuple_headers) rows1);
         c2 = counter (map (to_tuple tuple_headers) rows2);
         added = concat (map (\<lambda>(t, count).
             replicate (nat count)
               \<lparr>kind = ''added'', key = StrKey t, changes = [],
                row_old = None, row_new = Some (zip tuple_headers t)\<rparr>) (counter_sub c2 c1));
         removed = concat (map (\<lambda>(t, count).
             replicate (nat count)
               \<lparr>kind = ''removed'', key = StrKey t, changes = [],
                row_old = Some (zip tuple_headers t), row_new = None\<rparr>) (counter_sub c1 c2))
     in (added, removed, []))"

text \<open>
  \<open>compare_csv_files\<close> on the loaded sources.  \<open>keys\<close> is \<open>Optional[Sequence[str]]\<close>;
  \<open>raw\<close> stands for \<open>_raw_text_diff(...) if include_raw_diff else None\<close>.  The result
  type has an error side so that a failing comparison can be expressed; every path of the
  source returns a \<open>DiffResult\<close>.
\<close>

definition compare_csv_files ::
  "string list \<Rightarrow> row list \<Rightarrow> string list \<Rightarrow> row list
     \<Rightarrow> string list option \<Rightarrow> bool \<Rightarrow> string option \<Rightarrow> error + DiffResult" where
  "compare_csv_files headers1 rows1 headers2 rows2 keys ordered raw =
    (\<lambda>(added, removed, modified).
       Inr \<lparr>added = added, removed = removed, modified = modified, raw_diff = raw\<rparr>)
       (if ordered then compare_ordered headers1 rows1 headers2 rows2
        else case keys of
          None \<Rightarrow> compare_multiset headers1 rows1 headers2 rows2
        | Some ks \<Rightarrow>
            if ks \<noteq> [] \<and> length ks > 0
            then compare_unordered headers1 rows1 headers2 rows2 ks
            else compare_multiset headers1 rows1 headers2 rows2)"

section \<open>change\_tracker.py: Python strings\<close>

text \<open>
  A Python \<open>str\<close> is a sequence of Unicode code points.  It is modelled as the list of its
  code points (natural numbers); \<open>lit s\<close> is the string made of the ASCII characters of
  \<open>s\<close>.  \<open>is_space\<close> is the test that \<open>strip()\<close> and \<open>split()\<close> apply to one code point:
  the ASCII whitespace, the separators 0x1C to 0x1F, and the Unicode whitespace beyond ASCII
  (among them the no-break space 0xA0, the next-line character 0x85 and the ideographic
  space 0x3000).
\<close>

type_synonym pystr = "nat list"

definition lit :: "string \<Rightarrow> pystr" where
  "lit s = map of_char s"

definition whitespace :: "nat list" where
  "whitespace =
     [0x09, 0x0A, 0x0B, 0x0C, 0x0D, 0x1C, 0x1D, 0x1E, 0x1F, 0x20, 0x85, 0xA0, 0x1680,
      0x2000, 0x2001, 0x2002, 0x2003, 0x2004, 0x2005, 0x2006, 0x2007, 0x2008, 0x2009, 0x200A,
      0x2028, 0x2029, 0x202F, 0x205F, 0x3000]"

definition is_space :: "nat \<Rightarrow> bool" where
  "is_space c = (c \<in> set whitespace)"

text \<open>\<open>s.strip()\<close>.\<close>

definition strip :: "pystr \<Rightarrow> pystr" where
  "strip s = rev (dropWhile is_space (rev (dropWhile is_space s)))"

text \<open>\<open>s.split()\<close> (split at runs of whitespace, no empty words) with the word being
  read as accumulator, and \<open>sep.join(words)\<close>.\<close>

fun split_from :: "pystr \<Rightarrow> pystr \<Rightarrow> pystr list" where
  "split_from cur [] = (if cur = [] then [] else [cur])"
| "split_from cur (c # cs) =
     (if is_space c then (if cur = [] then split_from [] cs else cur # split_from [] cs)
      else split_from (cur @ [c]) cs)"

definition split :: "pystr \<Rightarrow> pystr list" where
  "split s = split_from [] s"

fun join :: "pystr \<Rightarrow> pystr list \<Rightarrow> pystr" where
  "join sep [] = []"
| "join sep [w] = w"
| "join sep (w # ws) = w @ sep @ join sep ws"

text \<open>\<open>s.replace(sub, rep)\<close>: the occurrences of \<open>sub\<close> are found from left to right
  and do not overlap; the text produced by a replacement is not scanned again.\<close>

function replace :: "pystr \<Rightarrow> pystr \<Rightarrow> pystr \<Rightarrow> pystr" where
  "replace sub rep s =
     (if sub = [] then rep @ concat (map (\<lambda>c. c # rep) s)
      else if s = [] then []
      else if take (length sub) s = sub then rep @ replace sub rep (drop (length sub) s)
      else hd s # replace sub rep (tl s))"
  by pat_completeness auto
termination
  by (relation "measure (\<lambda>(sub, rep, s). length s)") auto

declare replace.simps [simp del]

section \<open>change\_tracker.py: what the interpreter and the standard library supply\<close>

text \<open>
  Four functions that the tracker calls are not code of the repository and are taken as
  parameters, gathered in one record: \<open>str.upper\<close> and \<open>str.lower\<close> (the Unicode case
  mappings), \<open>difflib.SequenceMatcher(None, a, b).ratio()\<close> and \<open>round(x, 2)\<close>.  The last
  two work on floats; a float is represented by the real number it denotes.  Every theorem
  about the tracker that mentions \<open>lib\<close> holds for all values of these parameters.

  The source compares the ratio with the float literals \<open>0.8\<close> and \<open>0.5\<close>.
  \<open>float_0_8\<close> and \<open>float_0_5\<close> are the real numbers these two literals denote as IEEE
  doubles (\<open>0.5\<close> is exact, \<open>0.8\<close> is not).
\<close>

record pylib =
  str_upper :: "pystr \<Rightarrow> pystr"
  str_lower :: "pystr \<Rightarrow> pystr"
  sm_ratio :: "pystr \<Rightarrow> pystr \<Rightarrow> real"
  round2 :: "real \<Rightarrow> real"

definition float_0_8 :: real where
  "float_0_8 = 3602879701896397 / 4503599627370496"

definition float_0_5 :: real where
  "float_0_5 = 1 / 2"

section \<open>change\_tracker.py: values, records and state\<close>

text \<open>
  A value read from a pandas row: \<open>NaN\<close> for a missing cell, \<open>Val s\<close> for any other cell,
  where \<open>s\<close> is what \<open>str(value)\<close> returns, and \<open>PyNone\<close> for the \<open>None\<close> that
  \<open>row.get(k)\<close> returns for an absent column.  \<open>series_get row k d\<close> is
  \<open>row.get(k, d)\<close>, \<open>isna\<close> is \<open>pd.isna\<close> and \<open>str\<close> is Python's \<open>str\<close>.  Column names
  are only ever compared for equality and stay \<open>string\<close>s.
\<close>

datatype pyval = PyNone | NaN | Val pystr

type_synonym series = "(string \<times> pyval) list"

definition series_get :: "series \<Rightarrow> string \<Rightarrow> pyval \<Rightarrow> pyval" where
  "series_get row k d = (case map_of row k of None \<Rightarrow> d | Some v \<Rightarrow> v)"

definition isna :: "pyval \<Rightarrow> bool" where
  "isna v = (case v of PyNone \<Rightarrow> True | NaN \<Rightarrow> True | Val s \<Rightarrow> False)"

definition str :: "pyval \<Rightarrow> pystr" where
  "str v = (case v of PyNone \<Rightarrow> lit ''None'' | NaN \<Rightarrow> lit ''nan'' | Val s \<Rightarrow> s)"

text \<open>
  The dict that \<open>detect_field_change\<close> returns, an entry of \<open>self.changes\<close> (its key
  \<open>changes\<close> is the field \<open>field_changes\<close>), the \<open>self.statistics\<close> dict, and the tracker
  object (\<open>self.changes\<close> is the field \<open>tracker_changes\<close>).
\<close>

record FieldChange =
  field :: string
  old_value :: pystr
  new_value :: pystr
  change_type :: string
  similarity :: real

record UserChange =
  user :: pyval
  chinese_name :: pyval
  field_changes :: "FieldChange list"

record Statistics =
  total_old_records :: int
  total_new_records :: int
  common_users :: int
  new_joiners :: int
  resignees :: int
  users_with_changes :: int
  total_field_changes :: int

record ChangeTracker =
  old_data :: "series list"
  new_data :: "series list"
  tracker_changes :: "UserChange list"
  statistics :: Statistics

section \<open>change\_tracker.py: the operations\<close>

text \<open>\<open>normalize_name\<close>.  Its argument is always a \<open>str\<close>, so \<open>pd.isna(name)\<close> is
  false and only the test \<open>name == ''\<close> remains.\<close>

definition normalize_name :: "pylib \<Rightarrow> pystr \<Rightarrow> pystr" where
  "normalize_name lib name =
     (if name = [] then []
      else strip (replace (lit ''-'') (lit '' '') (replace (lit ''.'') [] (replace (lit '','') []
             (str_upper lib (join (lit '' '') (split name)))))))"

text \<open>\<open>create_user_key\<close>, with its two local variables \<open>eng_name\<close> and
  \<open>chi_name\<close> as functions of the row.\<close>

definition eng_name_of :: "pylib \<Rightarrow> series \<Rightarrow> pystr" where
  "eng_name_of lib row = normalize_name lib (str (series_get row ''Name'' (Val [])))"

definition chi_name_of :: "series \<Rightarrow> pystr" where
  "chi_name_of row =
     (if \<not> isna (series_get row ''Chi Name'' PyNone)
      then strip (str (series_get row ''Chi Name'' (Val [])))
      else [])"

definition create_user_key :: "pylib \<Rightarrow> series \<Rightarrow> pystr" where
  "create_user_key lib row =
     (let eng_name = eng_name_of lib row; chi_name = chi_name_of row
      in if chi_name \<noteq> [] then eng_name @ lit ''|'' @ chi_name else eng_name)"

text \<open>
  \<open>find_common_users\<close>.  \<open>users_by_key\<close> is the loop that fills \<open>old_users\<close> and
  \<open>new_users\<close> (lines 94 to 104), skipping empty keys.  The source builds
  \<open>common_users\<close> by iterating over a Python set, in unspecified order; the model lists the
  common keys in the order of \<open>old_users\<close>.
\<close>

definition users_by_key :: "pylib \<Rightarrow> series list \<Rightarrow> (pystr \<times> series) list" where
  "users_by_key lib data =
     fold (\<lambda>row users. let key = create_user_key lib row
                        in if key \<noteq> [] then AList.update key row users else users) data []"

definition find_common_users ::
  "pylib \<Rightarrow> ChangeTracker \<Rightarrow> (pystr \<times> series \<times> series) list \<times> ChangeTracker" where
  "find_common_users lib self =
     (let old_users = users_by_key lib (old_data self);
          new_users = users_by_key lib (new_data self);
          common_users = concat (map (\<lambda>(key, old_row).
              case map_of new_users key of None \<Rightarrow> [] | Some new_row \<Rightarrow> [(key, old_row, new_row)])
            old_users)
      in (common_users,
          self\<lparr>statistics := (statistics self)\<lparr>
            common_users := int (length common_users),
            new_joiners := int (card (set (map fst new_users) - set (map fst old_users))),
            resignees := int (card (set (map fst old_users) - set (map fst new_users)))
          \<rparr>\<rparr>))"

text \<open>\<open>similarity_score\<close> is only called on two \<open>str\<close> values, so its
  \<open>pd.isna\<close> branch does nothing.\<close>

definition similarity_score :: "pylib \<Rightarrow> pystr \<Rightarrow> pystr \<Rightarrow> real" where
  "similarity_score lib str1 str2 = sm_ratio lib str1 str2"

text \<open>
  \<open>detect_field_change\<close>.  \<open>value_str v\<close> is
  \<open>'' if pd.isna(v) else str(v).strip()\<close> (lines 137 and 138) and \<open>normalized lib s\<close> is
  \<open>s.lower().replace('-', ' ').replace(',', ' ').replace('  ', ' ').strip()\<close>
  (lines 141 and 142).  The label is decided on the unrounded ratio; the dict stores
  \<open>round(similarity, 2)\<close>.  The result is \<open>None\<close> or the dict of the change.
\<close>

definition normalized :: "pylib \<Rightarrow> pystr \<Rightarrow> pystr" where
  "normalized lib s =
     strip (replace (lit ''  '') (lit '' '') (replace (lit '','') (lit '' '')
       (replace (lit ''-'') (lit '' '') (str_lower lib s))))"

definition value_str :: "pyval \<Rightarrow> pystr" where
  "value_str v = (if isna v then [] else strip (str v))"

definition detect_field_change ::
  "pylib \<Rightarrow> pyval \<Rightarrow> pyval \<Rightarrow> string \<Rightarrow> FieldChange option" where
  "detect_field_change lib old_val new_val field_name =
     (let old_str = value_str old_val;
          new_str = value_str new_val;
          old_str_normalized = normalized lib old_str;
          new_str_normalized = normalized lib new_str
      in if old_str_normalized \<noteq> new_str_normalized
         then (let similarity = similarity_score lib old_str_normalized new_str_normalized;
                   change_type =
                     (if old_str = [] \<and> new_str \<noteq> [] then ''Added''
                      else if old_str \<noteq> [] \<and> new_str = [] then ''Removed''
                      else if similarity > float_0_8 then ''Minor Change (Possible Typo)''
                      else if similarity > float_0_5 then ''Moderate Change''
                      else ''Major Change'')
               in Some \<lparr>field = field_name, old_value = old_str, new_value = new_str,
                         change_type = change_type, similarity = round2 lib similarity\<rparr>)
         else None)"

text \<open>
  \<open>compare_users\<close>.  \<open>compare_fields\<close> is the inner loop over
  \<open>fields_to_compare\<close>, threading \<open>user_changes\<close> and the counter
  \<open>total_field_changes\<close>; \<open>compare_user\<close> is one pass of the outer loop over
  \<open>common_users.items()\<close>, threading the tracker and the set \<open>users_with_changes\<close>
  (a duplicate-free list).
\<close>

definition fields_to_compare :: "string list" where
  "fields_to_compare = [''Name'', ''Title'', ''Phone'', ''Fax'', ''Location'']"

definition compare_fields ::
  "pylib \<Rightarrow> series \<Rightarrow> series \<Rightarrow> int \<Rightarrow> FieldChange list \<times> int" where
  "compare_fields lib old_record new_record tfc =
     fold (\<lambda>field (user_changes, tfc).
        case detect_field_change lib (series_get old_record field PyNone)
               (series_get new_record field PyNone) field of
          None \<Rightarrow> (user_changes, tfc)
        | Some change \<Rightarrow> (user_changes @ [change], tfc + 1))
       fields_to_compare ([], tfc)"

definition compare_user ::
  "pylib \<Rightarrow> pystr \<times> series \<times> series \<Rightarrow> ChangeTracker \<times> pystr list
     \<Rightarrow> ChangeTracker \<times> pystr list" where
  "compare_user lib =
     (\<lambda>(user_key, old_record, new_record) (self, users_with_changes).
        let (user_changes, tfc) =
              compare_fields lib old_record new_record (total_field_changes (statistics self));
            self = self\<lparr>statistics := (statistics self)\<lparr>total_field_changes := tfc\<rparr>\<rparr>
        in if user_changes \<noteq> []
           then (self\<lparr>tracker_changes := tracker_changes self @
                         [\<lparr>user = series_get old_record ''Name'' (Val []),
                           chinese_name = series_get old_record ''Chi Name'' (Val []),
                           field_changes = user_changes\<rparr>]\<rparr>,
                 List.insert user_key users_with_changes)
           else (self, users_with_changes))"

definition compare_users ::
  "pylib \<Rightarrow> ChangeTracker \<Rightarrow> (pystr \<times> series \<times> series) list \<Rightarrow> ChangeTracker" where
  "compare_users lib self common =
     (let (self', users_with_changes) = fold (compare_user lib) common (self, [])
      in self'\<lparr>statistics := (statistics self')\<lparr>
           users_with_changes := int (length users_with_changes)\<rparr>\<rparr>)"

section \<open>A library for the worked examples\<close>

text \<open>
  The closed examples below need values for the four library functions.  On strings of
  ASCII characters \<open>ascii_upper\<close> and \<open>ascii_lower\<close> are \<open>str.upper\<close> and
  \<open>str.lower\<close>.  \<open>short_ratio\<close> follows difflib for a second string of fewer than 200
  characters (where its automatic junk heuristic is off): \<open>find_longest_match\<close> returns
  \<open>(i, j, k)\<close> with \<open>a[i:i+k] == b[j:j+k]\<close>, \<open>k\<close> maximal, and among the maximal blocks
  the one that starts earliest in \<open>a\<close> and then earliest in \<open>b\<close>; \<open>matching_size\<close> is the
  total size of the matching blocks (the longest block, then recursively the pieces to its
  left and to its right); the ratio is \<open>2 * matches / length\<close>, as the exact quotient.
  \<open>nearest_hundredth\<close> rounds to two decimals.  They are used on short ASCII values only,
  with ratios that are at neither a threshold nor a rounding tie, where the exact quotient
  and the float give the same label and the same two decimals.
\<close>

definition ascii_upper :: "pystr \<Rightarrow> pystr" where
  "ascii_upper s = map (\<lambda>c. if 97 \<le> c \<and> c \<le> 122 then c - 32 else c) s"

definition ascii_lower :: "pystr \<Rightarrow> pystr" where
  "ascii_lower s = map (\<lambda>c. if 65 \<le> c \<and> c \<le> 90 then c + 32 else c) s"

fun common_prefix_len :: "'a list \<Rightarrow> 'a list \<Rightarrow> nat" where
  "common_prefix_len (x # xs) (y # ys) = (if x = y then Suc (common_prefix_len xs ys) else 0)"
| "common_prefix_len _ _ = 0"

definition find_longest_match :: "'a list \<Rightarrow> 'a list \<Rightarrow> nat \<times> nat \<times> nat" where
  "find_longest_match a b =
     fold (\<lambda>i best.
       fold (\<lambda>j (besti, bestj, bestsize).
               let k = common_prefix_len (drop i a) (drop j b)
               in if k > bestsize then (i, j, k) else (besti, bestj, bestsize))
            [0..<length b] best)
       [0..<length a] (0, 0, 0)"

text \<open>A match of positive size starts inside \<open>a\<close>; this is what makes the recursion
  of \<open>matching_size\<close> terminate.\<close>

lemma find_longest_match_inner:
  assumes "snd (snd best) = 0 \<or> fst best < n"
    and "i < n"
  shows "snd (snd (fold (\<lambda>j (besti, bestj, bestsize).
               let k = common_prefix_len (drop i a) (drop j b)
               in if k > bestsize then (i, j, k) else (besti, bestj, bestsize)) js best)) = 0
         \<or> fst (fold (\<lambda>j (besti, bestj, bestsize).
               let k = common_prefix_len (drop i a) (drop j b)
               in if k > bestsize then (i, j, k) else (besti, bestj, bestsize)) js best) < n"
  using assms by (induction js arbitrary: best) (auto simp: Let_def split: prod.splits)

lemma find_longest_match_outer:
  assumes "snd (snd best) = 0 \<or> fst best < n"
    and "\<forall>i \<in> set is. i < n"
  shows "snd (snd (fold (\<lambda>i best.
       fold (\<lambda>j (besti, bestj, bestsize).
               let k = common_prefix_len (drop i a) (drop j b)
               in if k > bestsize then (i, j, k) else (besti, bestj, bestsize))
            js best) is best)) = 0
     \<or> fst (fold (\<lambda>i best.
       fold (\<lambda>j (besti, bestj, bestsize).
               let k = common_prefix_len (drop i a) (drop j b)
               in if k > bestsize then (i, j, k) else (besti, bestj, bestsize))
            js best) is best) < n"
  using assms
proof (induction "is" arbitrary: best)
  case Nil
  then show ?case by simp
next
  case (Cons i "is")
  show ?case
    using Cons.IH [OF find_longest_match_inner [of best n i a b js]] Cons.prems by simp
qed

lemma find_longest_match_start:
  "snd (snd (find_longest_match a b)) = 0 \<or> fst (find_longest_match a b) < length a"
  unfolding find_longest_match_def
  by (rule find_longest_match_outer) simp_all

function matching_size :: "'a list \<Rightarrow> 'a list \<Rightarrow> nat" where
  "matching_size a b =
     (let m = find_longest_match a b;
          i = fst m; j = fst (snd m); k = snd (snd m)
      in if k = 0 then 0
         else k + (if 0 < i \<and> 0 < j then matching_size (take i a) (take j b) else 0)
                + (if i + k < length a \<and> j + k < length b
                   then matching_size (drop (i + k) a) (drop (j + k) b) else 0))"
  by pat_completeness auto
termination
proof (relation "measure (\<lambda>(a, b). length a)")
  show "wf (measure (\<lambda>(a, b). length a))" by simp
next
  fix a b :: "'a list" and m i j k
  assume "m = find_longest_match a b" "i = fst m" "k = snd (snd m)" "k \<noteq> 0"
  then have "i < length a"
    using find_longest_match_start [of a b] by simp
  then show "((take i a, take j b), (a, b)) \<in> measure (\<lambda>(a, b). length a)"
    by simp
next
  fix a b :: "'a list" and m i j k
  assume "m = find_longest_match a b" "i = fst m" "k = snd (snd m)" "k \<noteq> 0"
  then have "i < length a"
    using find_longest_match_start [of a b] by simp
  then show "((drop (i + k) a, drop (j + k) b), (a, b)) \<in> measure (\<lambda>(a, b). length a)"
    using \<open>k \<noteq> 0\<close> by simp
qed

declare matching_size.simps [simp del]

definition short_ratio :: "pystr \<Rightarrow> pystr \<Rightarrow> real" where
  "short_ratio a b =
     (let matches = matching_size a b; len = length a + length b
      in if len \<noteq> 0 then 2 * real matches / real len else 1)"

definition nearest_hundredth :: "real \<Rightarrow> real" where
  "nearest_hundredth x = real_of_int \<lfloor>x * 100 + 1 / 2\<rfloor> / 100"

definition example_lib :: pylib where
  "example_lib = \<lparr>str_upper = ascii_upper, str_lower = ascii_lower,
                  sm_ratio = short_ratio, round2 = nearest_hundredth\<rparr>"

section \<open>Notions used to state the properties\<close>

text \<open>The entries of a result list that carry the key \<open>k\<close>, and the row that the dict built
  for one side holds under \<open>k\<close>: the last row of that side, in file order, whose key is
  \<open>k\<close>.\<close>

definition with_key :: "string list \<Rightarrow> RowChange list \<Rightarrow> RowChange list" where
  "with_key k cs = filter (\<lambda>c. key c = StrKey k) cs"

definition surviving_row :: "row list \<Rightarrow> string list \<Rightarrow> string list \<Rightarrow> row option" where
  "surviving_row rows keys k = find (\<lambda>r. make_key r keys = k) (rev rows)"

text \<open>
  The normalisation as the specification words it: lowercase, replace hyphens and commas
  with spaces (\<open>spaced\<close>), collapse repeated spaces (\<open>collapse_spaces\<close>: every run of
  spaces becomes one space), trim.  \<open>no_triple_space s\<close> says that \<open>s\<close> has no run of
  three or more spaces.
\<close>

definition spaced :: "pylib \<Rightarrow> pystr \<Rightarrow> pystr" where
  "spaced lib s =
     replace (lit '','') (lit '' '') (replace (lit ''-'') (lit '' '') (str_lower lib s))"

fun collapse_spaces :: "pystr \<Rightarrow> pystr" where
  "collapse_spaces (a # b # s) =
     (if a = 32 \<and> b = 32 then collapse_spaces (b # s) else a # collapse_spaces (b # s))"
| "collapse_spaces s = s"

fun no_triple_space :: "pystr \<Rightarrow> bool" where
  "no_triple_space (a # b # c # s) =
     (\<not> (a = 32 \<and> b = 32 \<and> c = 32) \<and> no_triple_space (b # c # s))"
| "no_triple_space s = True"

definition spec_normalized :: "pylib \<Rightarrow> pystr \<Rightarrow> pystr" where
  "spec_normalized lib s = strip (collapse_spaces (spaced lib s))"

text \<open>Two records that agree on the fields of \<open>fields_to_compare\<close>, and the changes that
  \<open>compare_fields\<close> collects for a pair of records.\<close>

definition same_on_compared_fields :: "series \<Rightarrow> series \<Rightarrow> bool" where
  "same_on_compared_fields r r' =
     (\<forall>f \<in> set fields_to_compare. series_get r f PyNone = series_get r' f PyNone)"

definition field_changes_of :: "pylib \<Rightarrow> series \<Rightarrow> series \<Rightarrow> FieldChange list" where
  "field_changes_of lib old_record new_record =
     concat (map (\<lambda>f.
       case detect_field_change lib (series_get old_record f PyNone)
              (series_get new_record f PyNone) f of
         None \<Rightarrow> [] | Some change \<Rightarrow> [change]) fields_to_compare)"

section \<open>Lemmas about the building blocks\<close>

subsection \<open>csv\_diff/core.py\<close>

lemma dict_fromkeys_fold_set:
  "set (fold (\<lambda>x acc. if x \<in> set acc then acc else acc @ [x]) xs acc0) = set acc0 \<union> set xs"
  by (induction xs arbitrary: acc0) auto

lemma set_dict_fromkeys: "set (dict_fromkeys xs) = set xs"
  by (simp add: dict_fromkeys_def dict_fromkeys_fold_set)

lemma dict_fromkeys_fold_distinct:
  "distinct acc0 \<Longrightarrow> distinct (fold (\<lambda>x acc. if x \<in> set acc then acc else acc @ [x]) xs acc0)"
  by (induction xs arbitrary: acc0) auto

lemma distinct_dict_fromkeys: "distinct (dict_fromkeys xs)"
  by (simp add: dict_fromkeys_def dict_fromkeys_fold_distinct)

lemma fold_update_distinct:
  "distinct (map fst m) \<Longrightarrow> distinct (map fst (fold (\<lambda>r m. AList.update (f r) r m) rows m))"
  by (induction rows arbitrary: m) (auto simp: distinct_update)

lemma fold_update_keys:
  "fst ` set (fold (\<lambda>r m. AList.update (f r) r m) rows m) = fst ` set m \<union> f ` set rows"
  by (induction rows arbitrary: m) (simp_all add: dom_update Un_assoc)

lemma find_snoc:
  "find P (xs @ [x]) = (case find P xs of None \<Rightarrow> (if P x then Some x else None) | Some y \<Rightarrow> Some y)"
  by (induction xs) simp_all

lemma fold_update_map_of:
  "map_of (fold (\<lambda>r m. AList.update (f r) r m) rows m) k =
     (case find (\<lambda>r. f r = k) (rev rows) of None \<Rightarrow> map_of m k | Some r \<Rightarrow> Some r)"
  by (induction rows arbitrary: m) (auto simp: find_snoc update_conv' split: option.splits)

lemma distinct_key_map: "distinct (map fst (key_map rows keys))"
  by (simp add: key_map_def fold_update_distinct)

lemma keys_key_map: "fst ` set (key_map rows keys) = (\<lambda>r. make_key r keys) ` set rows"
  using fold_update_keys [of "\<lambda>r. make_key r keys" rows "[]"] by (simp add: key_map_def)

lemma map_of_key_map:
  "map_of (key_map rows keys) k = find (\<lambda>r. make_key r keys = k) (rev rows)"
  using fold_update_map_of [of "\<lambda>r. make_key r keys" rows "[]" k]
  by (simp add: key_map_def split: option.splits)

lemma cell_changes_same: "cell_changes cols r r = []"
  by (induction cols) (simp_all add: cell_changes_def)

lemma columns_cell_changes:
  "map column (cell_changes cols r1 r2) = filter (\<lambda>c. row_get r1 c '''' \<noteq> row_get r2 c '''') cols"
  by (induction cols) (simp_all add: cell_changes_def Let_def)

lemma filter_key_concat:
  assumes "distinct (map fst m)"
    and "\<And>k' r c. c \<in> set (g k' r) \<Longrightarrow> key c = StrKey k'"
  shows "filter (\<lambda>c. key c = StrKey k) (concat (map (\<lambda>(k', r). g k' r) m)) =
           (case map_of m k of None \<Rightarrow> [] | Some r \<Rightarrow> g k r)"
  using assms(1)
proof (induction m)
  case Nil
  then show ?case by simp
next
  case (Cons p m)
  obtain k' r where p: "p = (k', r)" by (cases p)
  show ?case
  proof (cases "k' = k")
    case True
    have "filter (\<lambda>c. key c = StrKey k) (g k r) = g k r"
      using assms(2) by (simp add: filter_id_conv)
    moreover have "map_of m k = None"
      using Cons.prems p True by (auto simp: map_of_eq_None_iff)
    ultimately show ?thesis using Cons p True by simp
  next
    case False
    have "filter (\<lambda>c. key c = StrKey k) (g k' r) = []"
      using assms(2) False by (auto simp: filter_empty_conv)
    then show ?thesis using Cons p False by simp
  qed
qed

lemma surviving_row_None_iff:
  "surviving_row rows keys k = None \<longleftrightarrow> k \<notin> (\<lambda>r. make_key r keys) ` set rows"
  by (auto simp: surviving_row_def find_None_iff)

lemma map_of_key_map_surviving: "map_of (key_map rows keys) k = surviving_row rows keys k"
  by (simp add: map_of_key_map surviving_row_def)

lemma key_in_key_map_iff:
  "k \<in> fst ` set (key_map rows keys) \<longleftrightarrow> surviving_row rows keys k \<noteq> None"
  by (simp add: keys_key_map surviving_row_None_iff)

lemma cell_changes_empty_iff:
  "cell_changes cols r1 r2 = [] \<longleftrightarrow> (\<forall>col \<in> set cols. row_get r1 col '''' = row_get r2 col '''')"
  by (induction cols) (simp_all add: cell_changes_def Let_def)

lemma set_cell_changes:
  "set (cell_changes cols r1 r2) =
     (\<lambda>col. \<lparr>column = col, old = row_get r1 col '''', new = row_get r2 col ''''\<rparr>)
       ` {col \<in> set cols. row_get r1 col '''' \<noteq> row_get r2 col ''''}"
  by (induction cols) (auto simp: cell_changes_def Let_def)

lemma with_key_removed:
  "with_key k (concat (map (\<lambda>(k', r).
       if k' \<notin> set (map fst (key_map rows2 keys))
       then [\<lparr>kind = ''removed'', key = StrKey k', changes = [],
              row_old = Some r, row_new = None\<rparr>] else []) (key_map rows1 keys))) =
   (case surviving_row rows1 keys k of None \<Rightarrow> []
    | Some r \<Rightarrow> if surviving_row rows2 keys k = None
        then [\<lparr>kind = ''removed'', key = StrKey k, changes = [],
               row_old = Some r, row_new = None\<rparr>] else [])"
  unfolding with_key_def
  by (subst filter_key_concat)
     (auto simp: distinct_key_map map_of_key_map_surviving key_in_key_map_iff split: option.splits if_splits)

lemma with_key_added:
  "with_key k (concat (map (\<lambda>(k', r).
       if k' \<notin> set (map fst (key_map rows1 keys))
       then [\<lparr>kind = ''added'', key = StrKey k', changes = [],
              row_old = None, row_new = Some r\<rparr>] else []) (key_map rows2 keys))) =
   (case surviving_row rows2 keys k of None \<Rightarrow> []
    | Some r \<Rightarrow> if surviving_row rows1 keys k = None
        then [\<lparr>kind = ''added'', key = StrKey k, changes = [],
               row_old = None, row_new = Some r\<rparr>] else [])"
  unfolding with_key_def
  by (subst filter_key_concat)
     (auto simp: distinct_key_map map_of_key_map_surviving key_in_key_map_iff split: option.splits if_splits)

lemma with_key_modified:
  "with_key k (concat (map (\<lambda>(k', r1).
       case map_of (key_map rows2 keys) k' of
         None \<Rightarrow> []
       | Some r2 \<Rightarrow>
           (let changes = cell_changes cols r1 r2
            in if changes \<noteq> []
               then [\<lparr>kind = ''modified'', key = StrKey k', changes = changes,
                      row_old = Some r1, row_new = Some r2\<rparr>] else [])) (key_map rows1 keys))) =
   (case surviving_row rows1 keys k of None \<Rightarrow> []
    | Some r1 \<Rightarrow> (case surviving_row rows2 keys k of None \<Rightarrow> []
       | Some r2 \<Rightarrow> if cell_changes cols r1 r2 \<noteq> []
           then [\<lparr>kind = ''modified'', key = StrKey k, changes = cell_changes cols r1 r2,
                  row_old = Some r1, row_new = Some r2\<rparr>] else []))"
  unfolding with_key_def
  by (subst filter_key_concat)
     (auto simp: distinct_key_map map_of_key_map_surviving Let_def
           split: option.splits if_splits)

lemma counter_fold_keys:
  "fst ` set (fold (\<lambda>x c. AList.update x (counter_get c x + 1) c) xs c0) = fst ` set c0 \<union> set xs"
  by (induction xs arbitrary: c0) (simp_all add: dom_update Un_assoc)

lemma counter_fold_distinct:
  "distinct (map fst c0) \<Longrightarrow>
   distinct (map fst (fold (\<lambda>x c. AList.update x (counter_get c x + 1) c) xs c0))"
  by (induction xs arbitrary: c0) (simp_all add: distinct_update)

lemma counter_get_update:
  "counter_get (AList.update x v c) y = (if y = x then v else counter_get c y)"
  by (simp add: counter_get_def update_conv')

lemma counter_fold_get:
  "counter_get (fold (\<lambda>x c. AList.update x (counter_get c x + 1) c) xs c0) y =
     counter_get c0 y + int (count (mset xs) y)"
  by (induction xs arbitrary: c0) (simp_all add: counter_get_update)

lemma distinct_counter: "distinct (map fst (counter xs))"
  by (simp add: counter_def counter_fold_distinct)

lemma counter_get_counter: "counter_get (counter xs) y = int (count (mset xs) y)"
  using counter_fold_get [of xs "[]" y] by (simp add: counter_def counter_get_def)

lemma counter_entry:
  assumes "(e, n) \<in> set (counter xs)"
  shows "n = int (count (mset xs) e)"
proof -
  have "map_of (counter xs) e = Some n"
    using assms distinct_counter [of xs] by simp
  then have "counter_get (counter xs) e = n"
    by (simp add: counter_get_def)
  then show ?thesis by (simp add: counter_get_counter)
qed

text \<open>Between two counters built by \<open>counter\<close> the second loop of the subtraction adds nothing.\<close>

lemma counter_sub_counter:
  "counter_sub (counter xs) (counter ys) =
     concat (map (\<lambda>(elem, count).
        let newcount = count - counter_get (counter ys) elem
        in if newcount > 0 then [(elem, newcount)] else []) (counter xs))"
proof -
  have "concat (map (\<lambda>(elem, count).
        if elem \<notin> set (map fst (counter xs)) \<and> count < 0 then [(elem, 0 - count)] else [])
        (counter ys)) = []"
    by (auto dest: counter_entry)
  then show ?thesis by (simp add: counter_sub_def)
qed

lemma counter_sub_self: "counter_sub (counter xs) (counter xs) = []"
  by (auto simp: counter_sub_counter Let_def counter_get_counter dest: counter_entry)

lemma count_expand:
  "distinct (map fst S) \<Longrightarrow>
   count (mset (concat (map (\<lambda>(t, n). replicate (nat n) t) S))) x =
     (case map_of S x of None \<Rightarrow> 0 | Some n \<Rightarrow> nat n)"
proof (induction S)
  case Nil
  then show ?case by simp
next
  case (Cons p S)
  obtain t n where p: "p = (t, n)" by (cases p)
  from Cons.prems p have "map_of S t = None"
    by (auto simp: map_of_eq_None_iff)
  with Cons p show ?case by (auto split: option.splits)
qed

lemma sub_first_loop_keys:
  assumes "x \<in> set (concat (map (\<lambda>(elem, count).
        let newcount = count - g elem
        in if newcount > (0::int) then [(elem, newcount)] else []) c))"
  shows "fst x \<in> fst ` set c"
  using assms by (induction c) (auto simp: Let_def split: if_splits)

lemma sub_first_loop_distinct:
  "distinct (map fst c) \<Longrightarrow>
   distinct (map fst (concat (map (\<lambda>(elem, count).
        let newcount = count - g elem
        in if newcount > (0::int) then [(elem, newcount)] else []) c)))"
proof (induction c)
  case Nil
  then show ?case by simp
next
  case (Cons p c)
  obtain t n where p: "p = (t, n)" by (cases p)
  have "t \<notin> fst ` set (concat (map (\<lambda>(elem, count).
        let newcount = count - g elem
        in if newcount > 0 then [(elem, newcount)] else []) c))"
  proof
    assume "t \<in> fst ` set (concat (map (\<lambda>(elem, count).
        let newcount = count - g elem
        in if newcount > 0 then [(elem, newcount)] else []) c))"
    then obtain x where "x \<in> set (concat (map (\<lambda>(elem, count).
        let newcount = count - g elem
        in if newcount > 0 then [(elem, newcount)] else []) c))" and "fst x = t"
      by blast
    then have "t \<in> fst ` set c" using sub_first_loop_keys [of x g c] by simp
    then show False using Cons.prems p by simp
  qed
  then have "distinct (map fst (concat (map (\<lambda>(elem, count).
        let newcount = count - g elem
        in if newcount > 0 then [(elem, newcount)] else []) (p # c))))"
    using Cons p by (simp add: Let_def del: set_concat)
  then show ?case .
qed

lemma sub_first_loop_map_of:
  "distinct (map fst c) \<Longrightarrow>
   map_of (concat (map (\<lambda>(elem, count).
        let newcount = count - g elem
        in if newcount > (0::int) then [(elem, newcount)] else []) c)) x =
     (case map_of c x of None \<Rightarrow> None
      | Some n \<Rightarrow> if n - g x > 0 then Some (n - g x) else None)"
proof (induction c)
  case Nil
  then show ?case by simp
next
  case (Cons p c)
  obtain t n where p: "p = (t, n)" by (cases p)
  from Cons.prems p have "map_of c t = None"
    by (auto simp: map_of_eq_None_iff)
  with Cons p show ?case by (auto simp: Let_def split: option.splits)
qed

lemma map_of_counter:
  "map_of (counter xs) x = (if x \<in> set xs then Some (int (count (mset xs) x)) else None)"
proof (cases "x \<in> set xs")
  case True
  then have "x \<in> fst ` set (counter xs)"
    using counter_fold_keys [of xs "[]"] by (simp add: counter_def)
  then obtain n where "(x, n) \<in> set (counter xs)" by auto
  then show ?thesis using True distinct_counter [of xs] counter_entry by fastforce
next
  case False
  then have "x \<notin> fst ` set (counter xs)"
    using counter_fold_keys [of xs "[]"] by (simp add: counter_def)
  then show ?thesis using False by (simp add: map_of_eq_None_iff)
qed

lemma mset_counter_sub:
  "mset (concat (map (\<lambda>(t, n). replicate (nat n) t) (counter_sub (counter xs) (counter ys))))
     = mset xs - mset ys"
proof (rule multiset_eqI)
  fix x
  let ?S = "counter_sub (counter xs) (counter ys)"
  have d: "distinct (map fst ?S)"
    unfolding counter_sub_counter by (rule sub_first_loop_distinct) (rule distinct_counter)
  have m: "map_of ?S x = (case map_of (counter xs) x of None \<Rightarrow> None
      | Some n \<Rightarrow> if n - counter_get (counter ys) x > 0
                  then Some (n - counter_get (counter ys) x) else None)"
    unfolding counter_sub_counter by (rule sub_first_loop_map_of) (rule distinct_counter)
  show "count (mset (concat (map (\<lambda>(t, n). replicate (nat n) t) ?S))) x
          = count (mset xs - mset ys) x"
  proof (cases "x \<in> set xs")
    case True
    then show ?thesis
      by (simp add: count_expand [OF d] m map_of_counter counter_get_counter del: count_mset)
         arith
  next
    case False
    then show ?thesis
      by (simp add: count_expand [OF d] m map_of_counter count_mset_0_iff [THEN iffD2])
  qed
qed

lemma expand_map:
  "concat (map (\<lambda>(t, n). replicate (nat n) (F t)) S) =
     map F (concat (map (\<lambda>(t, n). replicate (nat n) t) S))"
  by (induction S) auto

lemma compare_ordered_same: "compare_ordered headers rows headers rows = ([], [], [])"
proof -
  have step: "fold (ordered_step rows rows cols) idxs ([], [], []) = ([], [], [])"
    if "\<forall>i \<in> set idxs. i < length rows" for cols idxs
    using that by (induction idxs) (simp_all add: ordered_step_def cell_changes_same)
  show ?thesis
    by (simp add: compare_ordered_def step)
qed

lemma compare_unordered_same: "compare_unordered headers rows headers rows keys = ([], [], [])"
proof -
  let ?m = "key_map rows keys"
  have m: "map_of ?m k = Some r" if "(k, r) \<in> set ?m" for k r
    using that distinct_key_map [of rows keys] by simp
  have k: "k \<in> set (map fst ?m)" if "(k, r) \<in> set ?m" for k r
    using that by force
  show ?thesis
    by (auto simp: compare_unordered_def Let_def cell_changes_same m dest: k)
qed

lemma compare_multiset_same: "compare_multiset headers rows headers rows = ([], [], [])"
  by (simp add: compare_multiset_def Let_def counter_sub_self)

lemma compare_multiset_mset:
  assumes "compare_multiset headers1 rows1 headers2 rows2 = (A, R, M)"
  shows "M = []"
    and "mset A = image_mset (\<lambda>t. \<lparr>kind = ''added'', key = StrKey t, changes = [],
                row_old = None, row_new = Some (zip (dict_fromkeys (headers1 @ headers2)) t)\<rparr>)
            (mset (map (to_tuple (dict_fromkeys (headers1 @ headers2))) rows2)
               - mset (map (to_tuple (dict_fromkeys (headers1 @ headers2))) rows1))"
    and "mset R = image_mset (\<lambda>t. \<lparr>kind = ''removed'', key = StrKey t, changes = [],
                row_old = Some (zip (dict_fromkeys (headers1 @ headers2)) t), row_new = None\<rparr>)
            (mset (map (to_tuple (dict_fromkeys (headers1 @ headers2))) rows1)
               - mset (map (to_tuple (dict_fromkeys (headers1 @ headers2))) rows2))"
proof -
  let ?cols = "dict_fromkeys (headers1 @ headers2)"
  let ?T1 = "map (to_tuple ?cols) rows1" and ?T2 = "map (to_tuple ?cols) rows2"
  show "M = []" using assms by (simp add: compare_multiset_def Let_def)
  have "A = map (\<lambda>t. \<lparr>kind = ''added'', key = StrKey t, changes = [],
                row_old = None, row_new = Some (zip ?cols t)\<rparr>)
            (concat (map (\<lambda>(t, n). replicate (nat n) t) (counter_sub (counter ?T2) (counter ?T1))))"
    using assms by (simp add: compare_multiset_def Let_def expand_map [symmetric])
  then show "mset A = image_mset (\<lambda>t. \<lparr>kind = ''added'', key = StrKey t, changes = [],
                row_old = None, row_new = Some (zip ?cols t)\<rparr>) (mset ?T2 - mset ?T1)"
    by (simp only: mset_map mset_counter_sub)
  have "R = map (\<lambda>t. \<lparr>kind = ''removed'', key = StrKey t, changes = [],
                row_old = Some (zip ?cols t), row_new = None\<rparr>)
            (concat (map (\<lambda>(t, n). replicate (nat n) t) (counter_sub (counter ?T1) (counter ?T2))))"
    using assms by (simp add: compare_multiset_def Let_def expand_map [symmetric])
  then show "mset R = image_mset (\<lambda>t. \<lparr>kind = ''removed'', key = StrKey t, changes = [],
                row_old = Some (zip ?cols t), row_new = None\<rparr>) (mset ?T1 - mset ?T2)"
    by (simp only: mset_map mset_counter_sub)
qed

lemma mset_eq_single: "mset xs = {#x#} \<Longrightarrow> xs = [x]"
  by (cases xs) auto

lemma dict_fromkeys_snoc:
  "dict_fromkeys (xs @ [x]) =
     (if x \<in> set xs then dict_fromkeys xs else dict_fromkeys xs @ [x])"
  by (simp add: dict_fromkeys_def dict_fromkeys_fold_set)

lemma dict_fromkeys_first_occurrences: "dict_fromkeys xs = rev (remdups (rev xs))"
  by (induction xs rule: rev_induct) (simp_all add: dict_fromkeys_snoc, simp add: dict_fromkeys_def)

lemma to_tuple_explicit:
  "to_tuple cols = (\<lambda>r. map (\<lambda>h. case map_of r h of None \<Rightarrow> '''' | Some v \<Rightarrow> v) cols)"
  by (rule ext) (simp add: to_tuple_def row_get_def)

subsection \<open>change\_tracker.py\<close>

text \<open>The equations that evaluate the model on a concrete input.\<close>

lemmas py_eval =
  lit_def strip_def is_space_def whitespace_def split_def replace.simps
  ascii_upper_def ascii_lower_def example_lib_def nearest_hundredth_def
  short_ratio_def matching_size.simps find_longest_match_def
  normalized_def value_str_def isna_def str_def series_get_def normalize_name_def
  eng_name_of_def chi_name_of_def create_user_key_def similarity_score_def
  float_0_8_def float_0_5_def spaced_def spec_normalized_def

lemma replace_two_spaces:
  "no_triple_space s \<Longrightarrow> replace [32, 32] [32] s = collapse_spaces s"
proof (induction s rule: collapse_spaces.induct)
  case (1 a b s)
  show ?case
  proof (cases "a = 32 \<and> b = 32")
    case True
    then have s: "s = [] \<or> hd s \<noteq> 32"
      using "1.prems" by (cases s) auto
    have "no_triple_space (b # s)"
      using "1.prems" by (cases s) auto
    then have ih: "replace [32, 32] [32] (b # s) = collapse_spaces (b # s)"
      using "1.IH"(1) True by simp
    have "replace [32, 32] [32] (32 # s) = 32 # replace [32, 32] [32] s"
      using s by (subst replace.simps) (cases s; auto)
    moreover have "replace [32, 32] [32] (32 # 32 # s) = 32 # replace [32, 32] [32] s"
      by (subst replace.simps) simp
    ultimately show ?thesis using True ih by simp
  next
    case False
    have "no_triple_space (b # s)"
      using "1.prems" by (cases s) auto
    then have ih: "replace [32, 32] [32] (b # s) = collapse_spaces (b # s)"
      using "1.IH"(2) False by simp
    have "replace [32, 32] [32] (a # b # s) = a # replace [32, 32] [32] (b # s)"
      using False by (subst replace.simps) auto
    then show ?thesis using False ih by simp
  qed
next
  case "2_1"
  then show ?case by (simp add: replace.simps)
next
  case "2_2"
  then show ?case by (simp add: replace.simps)
qed

lemma normalized_spec:
  "no_triple_space (spaced lib s) \<Longrightarrow> normalized lib s = spec_normalized lib s"
  using replace_two_spaces [of "spaced lib s"]
  by (simp add: normalized_def spec_normalized_def spaced_def lit_def)

lemma key_split:
  assumes "e1 @ [c] @ c1 = e2 @ [c] @ c2"
    and "c \<notin> set e1" and "c \<notin> set e2"
  shows "e1 = e2 \<and> c1 = c2"
proof -
  have tw: "takeWhile (\<lambda>x. x \<noteq> c) (e @ [c] @ d) = e" if "c \<notin> set e" for e d
    using that by (induction e) auto
  have "takeWhile (\<lambda>x. x \<noteq> c) (e1 @ [c] @ c1) = takeWhile (\<lambda>x. x \<noteq> c) (e2 @ [c] @ c2)"
    using assms(1) by (rule arg_cong)
  then have "e1 = e2"
    using tw [OF assms(2), of c1] tw [OF assms(3), of c2] by simp
  then show ?thesis using assms(1) by simp
qed

lemma lit_bar: "lit ''|'' = [124]"
  by (simp add: lit_def)

lemma create_user_key_cases:
  "create_user_key lib r =
     (if chi_name_of r \<noteq> [] then eng_name_of lib r @ [124] @ chi_name_of r
      else eng_name_of lib r)"
  by (simp add: create_user_key_def lit_bar Let_def)

lemma user_key_injective_without_separator:
  assumes "124 \<notin> set (eng_name_of lib r1)" and "124 \<notin> set (eng_name_of lib r2)"
    and "create_user_key lib r1 = create_user_key lib r2"
  shows "eng_name_of lib r1 = eng_name_of lib r2 \<and> chi_name_of r1 = chi_name_of r2"
proof -
  let ?e1 = "eng_name_of lib r1" and ?e2 = "eng_name_of lib r2"
  let ?c1 = "chi_name_of r1" and ?c2 = "chi_name_of r2"
  consider (a) "?c1 = []" "?c2 = []" | (b) "?c1 = []" "?c2 \<noteq> []"
    | (c) "?c1 \<noteq> []" "?c2 = []" | (d) "?c1 \<noteq> []" "?c2 \<noteq> []"
    by blast
  then show ?thesis
  proof cases
    case a
    then have "?e1 = ?e2"
      using assms(3) by (simp only: create_user_key_cases if_False simp_thms)
    with a show ?thesis by simp
  next
    case b
    then have "?e1 = ?e2 @ [124] @ ?c2"
      using assms(3) by (simp only: create_user_key_cases if_False if_True simp_thms)
    then have "124 \<in> set ?e1" by (simp only: set_append list.set) blast
    with assms(1) show ?thesis by blast
  next
    case c
    then have "?e1 @ [124] @ ?c1 = ?e2"
      using assms(3) by (simp only: create_user_key_cases if_False if_True simp_thms)
    then have "124 \<in> set ?e2" by (metis in_set_conv_decomp append_Cons append_Nil)
    with assms(2) show ?thesis by blast
  next
    case d
    then have "?e1 @ [124] @ ?c1 = ?e2 @ [124] @ ?c2"
      using assms(3) by (simp only: create_user_key_cases if_False if_True simp_thms)
    then show ?thesis
      using assms(1,2) by (rule key_split)
  qed
qed

lemma set_update_cases:
  "p \<in> set (AList.update k v al) \<Longrightarrow> p = (k, v) \<or> p \<in> set al"
  by (induction al) (auto split: if_splits)

lemma users_fold_filter:
  "fold (\<lambda>row users. let key = create_user_key lib row
                      in if key \<noteq> [] then AList.update key row users else users) data acc =
   fold (\<lambda>row users. let key = create_user_key lib row
                      in if key \<noteq> [] then AList.update key row users else users)
        (filter (\<lambda>r. create_user_key lib r \<noteq> []) data) acc"
  by (induction data arbitrary: acc) (simp_all add: Let_def)

lemma users_by_key_filter:
  "users_by_key lib (filter (\<lambda>r. create_user_key lib r \<noteq> []) data) = users_by_key lib data"
  unfolding users_by_key_def by (rule users_fold_filter [symmetric])

lemma users_fold_entry:
  assumes "(k, r) \<in> set (fold (\<lambda>row users. let key = create_user_key lib row
                      in if key \<noteq> [] then AList.update key row users else users) data acc)"
    and "\<forall>(k, r) \<in> set acc. k \<noteq> [] \<and> create_user_key lib r = k \<and> r \<in> S"
    and "set data \<subseteq> S"
  shows "k \<noteq> [] \<and> create_user_key lib r = k \<and> r \<in> S"
  using assms
proof (induction data arbitrary: acc)
  case Nil
  then show ?case by auto
next
  case (Cons row data)
  let ?acc = "(let key = create_user_key lib row
               in if key \<noteq> [] then AList.update key row acc else acc)"
  have "\<forall>(k, r) \<in> set ?acc. k \<noteq> [] \<and> create_user_key lib r = k \<and> r \<in> S"
    using Cons.prems(2,3) by (auto simp: Let_def dest!: set_update_cases)
  moreover have "(k, r) \<in> set (fold (\<lambda>row users. let key = create_user_key lib row
                      in if key \<noteq> [] then AList.update key row users else users) data ?acc)"
    using Cons.prems(1) by simp
  ultimately show ?case using Cons.IH Cons.prems(3) by simp
qed

lemma users_by_key_entry:
  assumes "(k, r) \<in> set (users_by_key lib data)"
  shows "k \<noteq> [] \<and> create_user_key lib r = k \<and> r \<in> set data"
  using users_fold_entry [where k = k and r = r and data = data and acc = "[]" and S = "set data"]
    assms
  by (simp add: users_by_key_def)

lemma find_common_users_filter_fst:
  "fst (find_common_users lib self) =
     fst (find_common_users lib (self\<lparr>
       old_data := filter (\<lambda>r. create_user_key lib r \<noteq> []) (old_data self),
       new_data := filter (\<lambda>r. create_user_key lib r \<noteq> []) (new_data self)\<rparr>))"
  unfolding find_common_users_def Let_def by (simp add: users_by_key_filter)

lemma find_common_users_filter_statistics:
  "statistics (snd (find_common_users lib self)) =
     statistics (snd (find_common_users lib (self\<lparr>
       old_data := filter (\<lambda>r. create_user_key lib r \<noteq> []) (old_data self),
       new_data := filter (\<lambda>r. create_user_key lib r \<noteq> []) (new_data self)\<rparr>)))"
  unfolding find_common_users_def Let_def by (simp add: users_by_key_filter)

lemma find_common_users_entry:
  assumes "(k, old_row, new_row) \<in> set (fst (find_common_users lib self))"
  shows "(k, old_row) \<in> set (users_by_key lib (old_data self))"
      and "map_of (users_by_key lib (new_data self)) k = Some new_row"
  using assms unfolding find_common_users_def Let_def
  by (auto split: option.splits)

lemma compare_fields_fold:
  "fold (\<lambda>field (user_changes, tfc).
        case detect_field_change lib (series_get old_record field PyNone)
               (series_get new_record field PyNone) field of
          None \<Rightarrow> (user_changes, tfc)
        | Some change \<Rightarrow> (user_changes @ [change], tfc + 1)) fs (acc, t) =
   (acc @ concat (map (\<lambda>f.
       case detect_field_change lib (series_get old_record f PyNone)
              (series_get new_record f PyNone) f of
         None \<Rightarrow> [] | Some change \<Rightarrow> [change]) fs),
    t + int (length (concat (map (\<lambda>f.
       case detect_field_change lib (series_get old_record f PyNone)
              (series_get new_record f PyNone) f of
         None \<Rightarrow> [] | Some change \<Rightarrow> [change]) fs))))"
  by (induction fs arbitrary: acc t) (auto split: option.splits)

lemma compare_fields_eq:
  "compare_fields lib old_record new_record t =
     (field_changes_of lib old_record new_record,
      t + int (length (field_changes_of lib old_record new_record)))"
  by (simp add: compare_fields_def field_changes_of_def compare_fields_fold)

lemma compare_user_eq:
  "compare_user lib (k, old_record, new_record) (st, u) =
     (if field_changes_of lib old_record new_record \<noteq> []
      then (st\<lparr>statistics := (statistics st)\<lparr>total_field_changes :=
                 total_field_changes (statistics st)
                   + int (length (field_changes_of lib old_record new_record))\<rparr>,
               tracker_changes := tracker_changes st @
                 [\<lparr>user = series_get old_record ''Name'' (Val []),
                   chinese_name = series_get old_record ''Chi Name'' (Val []),
                   field_changes = field_changes_of lib old_record new_record\<rparr>]\<rparr>,
            List.insert k u)
      else (st, u))"
  by (simp add: compare_user_def compare_fields_eq)

lemma detect_field_change_same: "detect_field_change lib v v f = None"
  by (simp add: detect_field_change_def)

lemma field_changes_of_same:
  "same_on_compared_fields old_record new_record \<Longrightarrow> field_changes_of lib old_record new_record = []"
  by (simp add: same_on_compared_fields_def field_changes_of_def detect_field_change_same)

lemma field_changes_of_cong:
  assumes "same_on_compared_fields o1 o2" and "same_on_compared_fields n1 n2"
  shows "field_changes_of lib o1 n1 = field_changes_of lib o2 n2"
proof -
  have "map (\<lambda>f. case detect_field_change lib (series_get o1 f PyNone) (series_get n1 f PyNone) f of
                   None \<Rightarrow> [] | Some change \<Rightarrow> [change]) fields_to_compare
      = map (\<lambda>f. case detect_field_change lib (series_get o2 f PyNone) (series_get n2 f PyNone) f of
                   None \<Rightarrow> [] | Some change \<Rightarrow> [change]) fields_to_compare"
    using assms by (intro map_cong) (simp_all add: same_on_compared_fields_def)
  then show ?thesis by (simp only: field_changes_of_def)
qed

lemma fold_compare_user_unchanged:
  assumes "\<forall>(k, old_record, new_record) \<in> set common.
             same_on_compared_fields old_record new_record"
  shows "fold (compare_user lib) common (st, u) = (st, u)"
  using assms
proof (induction common)
  case Nil
  then show ?case by simp
next
  case (Cons p common)
  obtain k old_record new_record where p: "p = (k, old_record, new_record)"
    by (cases p) auto
  with Cons.prems have "same_on_compared_fields old_record new_record" by simp
  then have "compare_user lib p (st, u) = (st, u)"
    by (simp add: p compare_user_eq field_changes_of_same)
  with Cons show ?case by simp
qed

lemma fold_compare_user_sim:
  assumes "list_all2 (\<lambda>(k, o1, n1) (k', o2, n2).
             k = k' \<and> same_on_compared_fields o1 o2 \<and> same_on_compared_fields n1 n2)
           common common'"
    and "map field_changes (tracker_changes st) = map field_changes (tracker_changes st')"
    and "statistics st = statistics st'"
  shows "map field_changes (tracker_changes (fst (fold (compare_user lib) common (st, u))))
           = map field_changes (tracker_changes (fst (fold (compare_user lib) common' (st', u))))
       \<and> statistics (fst (fold (compare_user lib) common (st, u)))
           = statistics (fst (fold (compare_user lib) common' (st', u)))
       \<and> snd (fold (compare_user lib) common (st, u)) = snd (fold (compare_user lib) common' (st', u))"
  using assms
proof (induction common common' arbitrary: st st' u rule: list_all2_induct)
  case Nil
  then show ?case by simp
next
  case (Cons p common p' common')
  obtain k o1 n1 where p: "p = (k, o1, n1)" by (cases p) auto
  obtain k' o2 n2 where p': "p' = (k', o2, n2)" by (cases p') auto
  from Cons.hyps(1) p p' have kk: "k' = k"
    and fc: "field_changes_of lib o1 n1 = field_changes_of lib o2 n2"
    by (auto intro: field_changes_of_cong)
  obtain s1 v1 where s1: "compare_user lib p (st, u) = (s1, v1)" by (cases "compare_user lib p (st, u)")
  obtain s2 v2 where s2: "compare_user lib p' (st', u) = (s2, v2)" by (cases "compare_user lib p' (st', u)")
  have rel: "map field_changes (tracker_changes s1) = map field_changes (tracker_changes s2)
      \<and> statistics s1 = statistics s2 \<and> v1 = v2"
    using s1 s2 Cons.prems fc by (auto simp: p p' kk compare_user_eq split: if_splits)
  then show ?case
    using Cons.IH [of s1 s2 v1] by (simp add: s1 s2)
qed

lemma fold_compare_user_changes:
  "concat (map field_changes (tracker_changes (fst (fold (compare_user lib) common (st, u))))) =
     concat (map field_changes (tracker_changes st))
       @ concat (map (\<lambda>(k, old_record, new_record). field_changes_of lib old_record new_record)
           common)
   \<and> total_field_changes (statistics (fst (fold (compare_user lib) common (st, u)))) =
     total_field_changes (statistics st)
       + int (length (concat (map (\<lambda>(k, old_record, new_record).
           field_changes_of lib old_record new_record) common)))"
proof (induction common arbitrary: st u)
  case Nil
  then show ?case by simp
next
  case (Cons p common)
  obtain k o1 n1 where p: "p = (k, o1, n1)" by (cases p) auto
  obtain s1 v1 where s1: "compare_user lib p (st, u) = (s1, v1)"
    by (cases "compare_user lib p (st, u)")
  have step: "concat (map field_changes (tracker_changes s1)) =
      concat (map field_changes (tracker_changes st)) @ field_changes_of lib o1 n1
    \<and> total_field_changes (statistics s1) =
      total_field_changes (statistics st) + int (length (field_changes_of lib o1 n1))"
    using s1 by (auto simp: p compare_user_eq split: if_splits)
  show ?case
    using Cons.IH [of s1 v1] step s1 by (simp add: p)
qed

section \<open>Claims about csv\_diff/core.py\<close>

subsection \<open>C1: a requested key column that a source does not have\<close>

text \<open>
  C1 as stated (keyed mode fails with ConfigurationError when a requested key column is
  absent from a source's header set) does not hold: \<open>_make_key\<close> reads the column with
  \<open>row.get(k, "")\<close> and nothing in core.py raises.  At the input below the column
  \<open>id\<close> is in neither header list, and the comparison returns a \<open>DiffResult\<close> with one
  removal under the key \<open>("",)\<close>.
\<close>

theorem keyed_absent_key_column_counterexample:
  "''id'' \<notin> set [''name''] \<and>
   compare_csv_files [''name''] [[(''name'', ''Alice'')]] [''name''] [] (Some [''id'']) False None
     = Inr \<lparr>added = [],
            removed = [\<lparr>kind = ''removed'', key = StrKey [''''], changes = [],
                        row_old = Some [(''name'', ''Alice'')], row_new = None\<rparr>],
            modified = [], raw_diff = None\<rparr> \<and>
   compare_csv_files [''name''] [[(''name'', ''Alice'')]] [''name''] [] (Some [''id'']) False None
     \<noteq> Inl ConfigurationError"
  by (simp add: compare_csv_files_def compare_unordered_def key_map_def make_key_def
        row_get_def dict_fromkeys_def)

text \<open>
  C1, amended: in keyed mode a requested key column that a record does not have is read as
  the empty string in that record's key, and the comparison does not fail: it returns the
  \<open>DiffResult\<close> that \<open>_compare_unordered\<close> computes.
\<close>

theorem keyed_absent_key_column_reads_empty:
  assumes "keys \<noteq> []" and "i < length keys" and "keys ! i \<notin> fst ` set r"
  shows "make_key r keys ! i = '''' \<and>
         (\<exists>res. compare_csv_files headers1 rows1 headers2 rows2 (Some keys) False raw = Inr res
             \<and> (added res, removed res, modified res) =
                 compare_unordered headers1 rows1 headers2 rows2 keys)"
proof -
  have "map_of r (keys ! i) = None"
    using assms(3) by (simp add: map_of_eq_None_iff)
  then have "make_key r keys ! i = ''''"
    using assms(2) by (simp add: make_key_def row_get_def)
  then show ?thesis
    using assms(1) by (simp add: compare_csv_files_def split: prod.splits)
qed

theorem keyed_absent_key_column_reads_empty_witness:
  "[''id''] \<noteq> [] \<and> (0::nat) < length [''id''] \<and> [''id''] ! 0 \<notin> fst ` set [(''name'', ''Alice'')] \<and>
   make_key [(''name'', ''Alice'')] [''id''] ! 0 = '''' \<and>
   (\<exists>res. compare_csv_files [''name''] [[(''name'', ''Alice'')]] [''name''] [] (Some [''id''])
             False None = Inr res
       \<and> (added res, removed res, modified res) =
           compare_unordered [''name''] [[(''name'', ''Alice'')]] [''name''] [] [''id''])"
  using keyed_absent_key_column_reads_empty [of "[''id'']" 0 "[(''name'', ''Alice'')]"
      "[''name'']" "[[(''name'', ''Alice'')]]" "[''name'']" "[]" None]
  by simp

subsection \<open>C6: one RowChange per key in keyed mode\<close>

text \<open>
  C6: in \<open>_compare_unordered\<close>, after the rows of each side are collapsed to the last row
  per key, a key held by the old side only yields exactly one removed RowChange and nothing
  else, a key held by the new side only yields exactly one added RowChange and nothing else,
  and a key held by both sides yields no addition and no removal, exactly one modified
  RowChange listing every column of the unioned header list on which the two rows differ
  (with the raw old and new values) when there is such a column, and no RowChange at all
  when there is none.
\<close>

theorem keyed_one_change_per_key:
  assumes "compare_unordered headers1 rows1 headers2 rows2 keys = (A, R, M)"
  shows
   "(\<forall>r1. surviving_row rows1 keys k = Some r1 \<and> surviving_row rows2 keys k = None \<longrightarrow>
        with_key k R = [\<lparr>kind = ''removed'', key = StrKey k, changes = [],
                         row_old = Some r1, row_new = None\<rparr>]
      \<and> with_key k A = [] \<and> with_key k M = [])
  \<and> (\<forall>r2. surviving_row rows1 keys k = None \<and> surviving_row rows2 keys k = Some r2 \<longrightarrow>
        with_key k A = [\<lparr>kind = ''added'', key = StrKey k, changes = [],
                         row_old = None, row_new = Some r2\<rparr>]
      \<and> with_key k R = [] \<and> with_key k M = [])
  \<and> (\<forall>r1 r2. surviving_row rows1 keys k = Some r1 \<and> surviving_row rows2 keys k = Some r2 \<longrightarrow>
        with_key k A = [] \<and> with_key k R = []
      \<and> ((\<exists>col \<in> set headers1 \<union> set headers2. row_get r1 col '''' \<noteq> row_get r2 col '''') \<longrightarrow>
           (\<exists>cs. with_key k M = [\<lparr>kind = ''modified'', key = StrKey k, changes = cs,
                                    row_old = Some r1, row_new = Some r2\<rparr>]
               \<and> set cs = (\<lambda>col. \<lparr>column = col, old = row_get r1 col '''',
                                    new = row_get r2 col ''''\<rparr>)
                          ` {col \<in> set headers1 \<union> set headers2.
                               row_get r1 col '''' \<noteq> row_get r2 col ''''}
               \<and> distinct (map column cs)))
      \<and> ((\<forall>col \<in> set headers1 \<union> set headers2. row_get r1 col '''' = row_get r2 col '''') \<longrightarrow>
           with_key k M = []))"
proof -
  let ?cols = "dict_fromkeys (headers1 @ headers2)"
  have A: "with_key k A = (case surviving_row rows2 keys k of None \<Rightarrow> []
    | Some r \<Rightarrow> if surviving_row rows1 keys k = None
        then [\<lparr>kind = ''added'', key = StrKey k, changes = [],
               row_old = None, row_new = Some r\<rparr>] else [])"
    using assms with_key_added [where k=k and ?rows1.0=rows1 and keys=keys and ?rows2.0=rows2]
    by (simp add: compare_unordered_def Let_def)
  have R: "with_key k R = (case surviving_row rows1 keys k of None \<Rightarrow> []
    | Some r \<Rightarrow> if surviving_row rows2 keys k = None
        then [\<lparr>kind = ''removed'', key = StrKey k, changes = [],
               row_old = Some r, row_new = None\<rparr>] else [])"
    using assms with_key_removed [where k=k and ?rows1.0=rows1 and keys=keys and ?rows2.0=rows2]
    by (simp add: compare_unordered_def Let_def)
  have M: "with_key k M = (case surviving_row rows1 keys k of None \<Rightarrow> []
    | Some r1 \<Rightarrow> (case surviving_row rows2 keys k of None \<Rightarrow> []
       | Some r2 \<Rightarrow> if cell_changes ?cols r1 r2 \<noteq> []
           then [\<lparr>kind = ''modified'', key = StrKey k, changes = cell_changes ?cols r1 r2,
                  row_old = Some r1, row_new = Some r2\<rparr>] else []))"
    using assms with_key_modified [where k=k and ?rows1.0=rows1 and keys=keys and ?rows2.0=rows2 and cols="?cols"]
    by (simp add: compare_unordered_def Let_def)
  have cs: "set (cell_changes ?cols r1 r2) =
      (\<lambda>col. \<lparr>column = col, old = row_get r1 col '''', new = row_get r2 col ''''\<rparr>)
        ` {col \<in> set headers1 \<union> set headers2. row_get r1 col '''' \<noteq> row_get r2 col ''''}"
    for r1 r2
    by (auto simp: set_cell_changes set_dict_fromkeys)
  have dc: "distinct (map column (cell_changes ?cols r1 r2))" for r1 r2
    by (simp add: columns_cell_changes distinct_dict_fromkeys)
  have ne: "cell_changes ?cols r1 r2 = [] \<longleftrightarrow>
      (\<forall>col \<in> set headers1 \<union> set headers2. row_get r1 col '''' = row_get r2 col '''')"
    for r1 r2
    by (simp add: cell_changes_empty_iff set_dict_fromkeys)
  show ?thesis
    apply (intro conjI allI impI)
    subgoal by (simp add: R)
    subgoal by (simp add: A)
    subgoal by (simp add: M)
    subgoal by (simp add: A)
    subgoal by (simp add: R)
    subgoal by (simp add: M)
    subgoal by (simp add: A)
    subgoal by (simp add: R)
    subgoal for r1 r2 using cs [of r1 r2] dc [of r1 r2] ne [of r1 r2] by (auto simp: M)
    subgoal for r1 r2 using ne [of r1 r2] by (simp add: M)
    done
qed

theorem keyed_one_change_per_key_witness:
  "compare_unordered [''id'', ''v'']
      [[(''id'', ''1''), (''v'', ''a'')], [(''id'', ''2''), (''v'', ''b'')],
       [(''id'', ''4''), (''v'', ''x'')]]
      [''id'', ''v'']
      [[(''id'', ''2''), (''v'', ''c'')], [(''id'', ''3''), (''v'', ''d'')],
       [(''id'', ''4''), (''v'', ''x'')]] [''id'']
    = ([\<lparr>kind = ''added'', key = StrKey [''3''], changes = [],
          row_old = None, row_new = Some [(''id'', ''3''), (''v'', ''d'')]\<rparr>],
       [\<lparr>kind = ''removed'', key = StrKey [''1''], changes = [],
          row_old = Some [(''id'', ''1''), (''v'', ''a'')], row_new = None\<rparr>],
       [\<lparr>kind = ''modified'', key = StrKey [''2''],
          changes = [\<lparr>column = ''v'', old = ''b'', new = ''c''\<rparr>],
          row_old = Some [(''id'', ''2''), (''v'', ''b'')],
          row_new = Some [(''id'', ''2''), (''v'', ''c'')]\<rparr>])
   \<and> surviving_row [[(''id'', ''1''), (''v'', ''a'')], [(''id'', ''2''), (''v'', ''b'')],
         [(''id'', ''4''), (''v'', ''x'')]] [''id''] [''1''] = Some [(''id'', ''1''), (''v'', ''a'')]
   \<and> surviving_row [[(''id'', ''2''), (''v'', ''c'')], [(''id'', ''3''), (''v'', ''d'')],
         [(''id'', ''4''), (''v'', ''x'')]] [''id''] [''1''] = None
   \<and> with_key [''1''] [\<lparr>kind = ''removed'', key = StrKey [''1''], changes = [],
          row_old = Some [(''id'', ''1''), (''v'', ''a'')], row_new = None\<rparr>]
       = [\<lparr>kind = ''removed'', key = StrKey [''1''], changes = [],
          row_old = Some [(''id'', ''1''), (''v'', ''a'')], row_new = None\<rparr>]
   \<and> surviving_row [[(''id'', ''1''), (''v'', ''a'')], [(''id'', ''2''), (''v'', ''b'')],
         [(''id'', ''4''), (''v'', ''x'')]] [''id''] [''3''] = None
   \<and> surviving_row [[(''id'', ''2''), (''v'', ''c'')], [(''id'', ''3''), (''v'', ''d'')],
         [(''id'', ''4''), (''v'', ''x'')]] [''id''] [''3''] = Some [(''id'', ''3''), (''v'', ''d'')]
   \<and> surviving_row [[(''id'', ''1''), (''v'', ''a'')], [(''id'', ''2''), (''v'', ''b'')],
         [(''id'', ''4''), (''v'', ''x'')]] [''id''] [''2''] = Some [(''id'', ''2''), (''v'', ''b'')]
   \<and> surviving_row [[(''id'', ''2''), (''v'', ''c'')], [(''id'', ''3''), (''v'', ''d'')],
         [(''id'', ''4''), (''v'', ''x'')]] [''id''] [''2''] = Some [(''id'', ''2''), (''v'', ''c'')]
   \<and> row_get [(''id'', ''2''), (''v'', ''b'')] ''v'' '''' \<noteq> row_get [(''id'', ''2''), (''v'', ''c'')] ''v'' ''''
   \<and> surviving_row [[(''id'', ''1''), (''v'', ''a'')], [(''id'', ''2''), (''v'', ''b'')],
         [(''id'', ''4''), (''v'', ''x'')]] [''id''] [''4''] = Some [(''id'', ''4''), (''v'', ''x'')]
   \<and> surviving_row [[(''id'', ''2''), (''v'', ''c'')], [(''id'', ''3''), (''v'', ''d'')],
         [(''id'', ''4''), (''v'', ''x'')]] [''id''] [''4''] = Some [(''id'', ''4''), (''v'', ''x'')]
   \<and> with_key [''4''] [\<lparr>kind = ''modified'', key = StrKey [''2''],
          changes = [\<lparr>column = ''v'', old = ''b'', new = ''c''\<rparr>],
          row_old = Some [(''id'', ''2''), (''v'', ''b'')],
          row_new = Some [(''id'', ''2''), (''v'', ''c'')]\<rparr>] = []"
proof -
  have h: "compare_unordered [''id'', ''v'']
      [[(''id'', ''1''), (''v'', ''a'')], [(''id'', ''2''), (''v'', ''b'')],
       [(''id'', ''4''), (''v'', ''x'')]]
      [''id'', ''v'']
      [[(''id'', ''2''), (''v'', ''c'')], [(''id'', ''3''), (''v'', ''d'')],
       [(''id'', ''4''), (''v'', ''x'')]] [''id'']
    = ([\<lparr>kind = ''added'', key = StrKey [''3''], changes = [],
          row_old = None, row_new = Some [(''id'', ''3''), (''v'', ''d'')]\<rparr>],
       [\<lparr>kind = ''removed'', key = StrKey [''1''], changes = [],
          row_old = Some [(''id'', ''1''), (''v'', ''a'')], row_new = None\<rparr>],
       [\<lparr>kind = ''modified'', key = StrKey [''2''],
          changes = [\<lparr>column = ''v'', old = ''b'', new = ''c''\<rparr>],
          row_old = Some [(''id'', ''2''), (''v'', ''b'')],
          row_new = Some [(''id'', ''2''), (''v'', ''c'')]\<rparr>])"
    by (simp add: compare_unordered_def key_map_def make_key_def row_get_def
          dict_fromkeys_def cell_changes_def)
  have s: "surviving_row [[(''id'', ''1''), (''v'', ''a'')], [(''id'', ''2''), (''v'', ''b'')],
         [(''id'', ''4''), (''v'', ''x'')]] [''id''] [''1''] = Some [(''id'', ''1''), (''v'', ''a'')]"
     "surviving_row [[(''id'', ''2''), (''v'', ''c'')], [(''id'', ''3''), (''v'', ''d'')],
         [(''id'', ''4''), (''v'', ''x'')]] [''id''] [''1''] = None"
     "surviving_row [[(''id'', ''1''), (''v'', ''a'')], [(''id'', ''2''), (''v'', ''b'')],
         [(''id'', ''4''), (''v'', ''x'')]] [''id''] [''3''] = None"
     "surviving_row [[(''id'', ''2''), (''v'', ''c'')], [(''id'', ''3''), (''v'', ''d'')],
         [(''id'', ''4''), (''v'', ''x'')]] [''id''] [''3''] = Some [(''id'', ''3''), (''v'', ''d'')]"
     "surviving_row [[(''id'', ''1''), (''v'', ''a'')], [(''id'', ''2''), (''v'', ''b'')],
         [(''id'', ''4''), (''v'', ''x'')]] [''id''] [''2''] = Some [(''id'', ''2''), (''v'', ''b'')]"
     "surviving_row [[(''id'', ''2''), (''v'', ''c'')], [(''id'', ''3''), (''v'', ''d'')],
         [(''id'', ''4''), (''v'', ''x'')]] [''id''] [''2''] = Some [(''id'', ''2''), (''v'', ''c'')]"
     "surviving_row [[(''id'', ''1''), (''v'', ''a'')], [(''id'', ''2''), (''v'', ''b'')],
         [(''id'', ''4''), (''v'', ''x'')]] [''id''] [''4''] = Some [(''id'', ''4''), (''v'', ''x'')]"
     "surviving_row [[(''id'', ''2''), (''v'', ''c'')], [(''id'', ''3''), (''v'', ''d'')],
         [(''id'', ''4''), (''v'', ''x'')]] [''id''] [''4''] = Some [(''id'', ''4''), (''v'', ''x'')]"
    by (simp_all add: surviving_row_def make_key_def row_get_def)
  show ?thesis
    using keyed_one_change_per_key [OF h, of "[''1'']"]
      keyed_one_change_per_key [OF h, of "[''3'']"]
      keyed_one_change_per_key [OF h, of "[''2'']"]
      keyed_one_change_per_key [OF h, of "[''4'']"]
    by (simp add: h s row_get_def)
qed

subsection \<open>C7: multiset mode\<close>

text \<open>
  C7: when neither ordering nor key columns are given (\<open>keys\<close> is \<open>None\<close> or empty),
  the modified sequence is empty.  The full-row tuple of a row lists, for every column of
  the unioned header list (the columns of both header lists in order of first occurrence),
  the row's value, or the empty string when the row has no such column.  The additions are,
  with multiplicity, the tuples that occur more often in the new source than in the old one
  (each as many times as the surplus, carrying the row rebuilt from the tuple), and the
  removals those that occur more often in the old source.  For two one-row sources whose
  tuples differ (a single-cell edit, say) the result is one removal plus one addition.
\<close>

theorem multiset_mode_counts:
  assumes "keys = None \<or> keys = Some []"
    and "cols = rev (remdups (rev (headers1 @ headers2)))"
    and "tup = (\<lambda>r. map (\<lambda>h. case map_of r h of None \<Rightarrow> '''' | Some v \<Rightarrow> v) cols)"
  shows "\<exists>A R. compare_csv_files headers1 rows1 headers2 rows2 keys False raw =
            Inr \<lparr>added = A, removed = R, modified = [], raw_diff = raw\<rparr>
     \<and> mset A = image_mset (\<lambda>t. \<lparr>kind = ''added'', key = StrKey t, changes = [],
                   row_old = None, row_new = Some (zip cols t)\<rparr>)
               (mset (map tup rows2) - mset (map tup rows1))
     \<and> mset R = image_mset (\<lambda>t. \<lparr>kind = ''removed'', key = StrKey t, changes = [],
                   row_old = Some (zip cols t), row_new = None\<rparr>)
               (mset (map tup rows1) - mset (map tup rows2))
     \<and> (\<forall>r1 r2. rows1 = [r1] \<and> rows2 = [r2] \<and> tup r1 \<noteq> tup r2 \<longrightarrow>
           A = [\<lparr>kind = ''added'', key = StrKey (tup r2), changes = [],
                 row_old = None, row_new = Some (zip cols (tup r2))\<rparr>]
         \<and> R = [\<lparr>kind = ''removed'', key = StrKey (tup r1), changes = [],
                 row_old = Some (zip cols (tup r1)), row_new = None\<rparr>])"
proof -
  have cols: "cols = dict_fromkeys (headers1 @ headers2)"
    using assms(2) by (simp only: dict_fromkeys_first_occurrences)
  have tup: "tup = to_tuple cols"
    using assms(3) by (simp only: to_tuple_explicit)
  obtain A R M where c: "compare_multiset headers1 rows1 headers2 rows2 = (A, R, M)"
    by (cases "compare_multiset headers1 rows1 headers2 rows2") auto
  note ms = compare_multiset_mset [OF c, folded cols, folded tup]
  have res: "compare_csv_files headers1 rows1 headers2 rows2 keys False raw =
            Inr \<lparr>added = A, removed = R, modified = [], raw_diff = raw\<rparr>"
    using assms(1) c ms(1) by (auto simp: compare_csv_files_def)
  have single: "A = [\<lparr>kind = ''added'', key = StrKey (tup r2), changes = [],
                 row_old = None, row_new = Some (zip cols (tup r2))\<rparr>]
         \<and> R = [\<lparr>kind = ''removed'', key = StrKey (tup r1), changes = [],
                 row_old = Some (zip cols (tup r1)), row_new = None\<rparr>]"
    if "rows1 = [r1]" "rows2 = [r2]" "tup r1 \<noteq> tup r2" for r1 r2
  proof -
    have "mset (map tup rows2) - mset (map tup rows1) = {#tup r2#}"
      using that by simp
    moreover have "mset (map tup rows1) - mset (map tup rows2) = {#tup r1#}"
      using that by simp
    ultimately show ?thesis
      using ms(2) ms(3) by (simp add: mset_eq_single)
  qed
  show ?thesis
    using res ms(2) ms(3) single by blast
qed

theorem multiset_mode_counts_witness:
  "\<exists>A R. compare_csv_files [''n'', ''v''] [[(''n'', ''A''), (''v'', ''1'')]]
            [''n'', ''w''] [[(''n'', ''A''), (''w'', ''2'')]] None False None =
            Inr \<lparr>added = A, removed = R, modified = [], raw_diff = None\<rparr>
     \<and> A = [\<lparr>kind = ''added'', key = StrKey [''A'', '''', ''2''], changes = [], row_old = None,
              row_new = Some [(''n'', ''A''), (''v'', ''''), (''w'', ''2'')]\<rparr>]
     \<and> R = [\<lparr>kind = ''removed'', key = StrKey [''A'', ''1'', ''''], changes = [],
              row_old = Some [(''n'', ''A''), (''v'', ''1''), (''w'', '''')], row_new = None\<rparr>]"
proof -
  let ?tup = "\<lambda>r. map (\<lambda>h. case map_of r h of None \<Rightarrow> '''' | Some v \<Rightarrow> v) [''n'', ''v'', ''w'']"
  have cols: "[''n'', ''v'', ''w''] = rev (remdups (rev ([''n'', ''v''] @ [''n'', ''w''])))"
    by simp
  have ne: "?tup [(''n'', ''A''), (''v'', ''1'')] \<noteq> ?tup [(''n'', ''A''), (''w'', ''2'')]"
    by simp
  show ?thesis
    using multiset_mode_counts [OF disjI1 [OF refl] cols refl,
        of "[[(''n'', ''A''), (''v'', ''1'')]]" "[[(''n'', ''A''), (''w'', ''2'')]]" None] ne
    by auto
qed

subsection \<open>C8: comparing a source with an identical copy\<close>

text \<open>
  C8: for identical headers and rows on both sides the added, removed and modified
  sequences are all empty, whatever the mode: ordered, keyed (any key columns) or multiset.
\<close>

theorem compare_identical_is_empty:
  "compare_csv_files headers rows headers rows keys ordered raw =
     Inr \<lparr>added = [], removed = [], modified = [], raw_diff = raw\<rparr>"
  by (simp add: compare_csv_files_def compare_ordered_same compare_unordered_same
        compare_multiset_same split: option.splits)

subsection \<open>C9: the key of keyed mode is the raw key-column values\<close>

text \<open>
  C9: with explicit key columns the matching key of a record is the tuple of its key-column
  values exactly as loaded (one component per key column, no normalisation or trimming), two
  records have the same key only if they agree on every key column character by character,
  and a one-row old source against a one-row new source whose key-column values differ in
  any way (case or a trailing space, say) gives one removal plus one addition and no
  modification.
\<close>

theorem keyed_key_is_verbatim:
  "length (make_key r keys) = length keys
   \<and> (\<forall>i < length keys. \<forall>v. map_of r (keys ! i) = Some v \<longrightarrow> make_key r keys ! i = v)
   \<and> (make_key r1 keys = make_key r2 keys \<longleftrightarrow>
        (\<forall>k \<in> set keys. row_get r1 k '''' = row_get r2 k ''''))
   \<and> (keys \<noteq> [] \<and> (\<exists>k \<in> set keys. row_get r1 k '''' \<noteq> row_get r2 k '''') \<longrightarrow>
        compare_csv_files headers1 [r1] headers2 [r2] (Some keys) False raw =
          Inr \<lparr>added = [\<lparr>kind = ''added'', key = StrKey (make_key r2 keys), changes = [],
                          row_old = None, row_new = Some r2\<rparr>],
                removed = [\<lparr>kind = ''removed'', key = StrKey (make_key r1 keys), changes = [],
                          row_old = Some r1, row_new = None\<rparr>],
                modified = [], raw_diff = raw\<rparr>)"
proof -
  have eq: "make_key r1 keys = make_key r2 keys \<longleftrightarrow>
        (\<forall>k \<in> set keys. row_get r1 k '''' = row_get r2 k '''')"
    by (simp add: make_key_def)
  have "compare_csv_files headers1 [r1] headers2 [r2] (Some keys) False raw =
          Inr \<lparr>added = [\<lparr>kind = ''added'', key = StrKey (make_key r2 keys), changes = [],
                          row_old = None, row_new = Some r2\<rparr>],
                removed = [\<lparr>kind = ''removed'', key = StrKey (make_key r1 keys), changes = [],
                          row_old = Some r1, row_new = None\<rparr>],
                modified = [], raw_diff = raw\<rparr>"
    if "keys \<noteq> []" "make_key r1 keys \<noteq> make_key r2 keys"
    using that by (auto simp: compare_csv_files_def compare_unordered_def key_map_def Let_def)
  then show ?thesis
    using eq by (simp add: make_key_def row_get_def)
qed

theorem keyed_key_is_verbatim_witness:
  "map_of [(''name'', ''Alice'')] ([''name''] ! 0) = Some ''Alice''
   \<and> make_key [(''name'', ''Alice'')] [''name''] ! 0 = ''Alice''
   \<and> row_get [(''name'', ''Alice'')] ''name'' '''' \<noteq> row_get [(''name'', ''alice '')] ''name'' ''''
   \<and> compare_csv_files [''name''] [[(''name'', ''Alice'')]] [''name''] [[(''name'', ''alice '')]]
        (Some [''name'']) False None =
          Inr \<lparr>added = [\<lparr>kind = ''added'', key = StrKey [''alice ''], changes = [],
                          row_old = None, row_new = Some [(''name'', ''alice '')]\<rparr>],
                removed = [\<lparr>kind = ''removed'', key = StrKey [''Alice''], changes = [],
                          row_old = Some [(''name'', ''Alice'')], row_new = None\<rparr>],
                modified = [], raw_diff = None\<rparr>"
  using keyed_key_is_verbatim [of "[(''name'', ''Alice'')]" "[''name'']"
      "[(''name'', ''Alice'')]" "[(''name'', ''alice '')]" "[''name'']" "[''name'']" None]
  by (simp add: make_key_def row_get_def)

section \<open>Claims about change\_tracker.py\<close>

subsection \<open>C2: values that are equal after normalisation\<close>

text \<open>
  C2 as stated does not hold: it names the pair \<open>O'Brien\<close> and \<open>OBrien,\<close> as suppressed.
  The normalisation lowercases and replaces hyphens and commas, but leaves the apostrophe, so
  the two normalised values are \<open>o'brien\<close> and \<open>obrien\<close>, and
  \<open>detect_field_change\<close> reports a minor change, with the similarity 0.92.
\<close>

theorem classifier_obrien_counterexample:
  "detect_field_change example_lib (Val (lit ''O'Brien'')) (Val (lit ''OBrien,'')) ''Name'' =
     Some \<lparr>field = ''Name'', old_value = lit ''O'Brien'', new_value = lit ''OBrien,'',
            change_type = ''Minor Change (Possible Typo)'', similarity = 92 / 100\<rparr>"
  by (simp add: detect_field_change_def Let_def py_eval)

text \<open>
  C2, amended: for two values that have no run of three or more spaces once they are
  trimmed, lowercased and their hyphens and commas replaced by spaces,
  \<open>detect_field_change\<close> reports no change exactly when the two values are equal after the
  normalisation of the specification (lowercase, hyphens and commas to spaces, repeated
  spaces collapsed, trim); raw strings that differ can be suppressed.  The pair
  \<open>O'Brien\<close>, \<open>OBrien,\<close> is not suppressed.
\<close>

theorem classifier_suppression:
  assumes "no_triple_space (spaced lib (value_str old_val))"
    and "no_triple_space (spaced lib (value_str new_val))"
  shows "detect_field_change lib old_val new_val field_name = None \<longleftrightarrow>
     spec_normalized lib (value_str old_val) = spec_normalized lib (value_str new_val)"
  using assms by (simp add: detect_field_change_def Let_def normalized_spec)

text \<open>
  An instance: \<open>Smith, John\<close> against \<open>smith-john\<close> preceded by a no-break space, which
  \<open>strip()\<close> removes like any other whitespace.
\<close>

theorem classifier_suppression_witness:
  "no_triple_space (spaced example_lib (value_str (Val (lit ''Smith, John''))))
   \<and> no_triple_space (spaced example_lib (value_str (Val (0xA0 # lit ''smith-john''))))
   \<and> spec_normalized example_lib (value_str (Val (lit ''Smith, John''))) = lit ''smith john''
   \<and> spec_normalized example_lib (value_str (Val (0xA0 # lit ''smith-john''))) = lit ''smith john''
   \<and> detect_field_change example_lib (Val (lit ''Smith, John'')) (Val (0xA0 # lit ''smith-john''))
        ''Name'' = None"
proof -
  have a: "no_triple_space (spaced example_lib (value_str (Val (lit ''Smith, John''))))"
    by (simp add: py_eval)
  have b: "no_triple_space (spaced example_lib (value_str (Val (0xA0 # lit ''smith-john''))))"
    by (simp add: py_eval)
  have c: "spec_normalized example_lib (value_str (Val (lit ''Smith, John''))) = lit ''smith john''"
    by (simp add: py_eval)
  have d: "spec_normalized example_lib (value_str (Val (0xA0 # lit ''smith-john''))) = lit ''smith john''"
    by (simp add: py_eval)
  show ?thesis
    using classifier_suppression [OF a b, of "''Name''"] a b c d by simp
qed

text \<open>
  Longer runs of spaces are outside the amended claim.  There the single pass of
  \<open>replace('  ', ' ')\<close> leaves more than one space, and two values that the comment at
  line 140 means to treat alike are reported: \<open>a - b\<close> against \<open>a b\<close>.
\<close>

lemma classifier_spaces_example:
  "spec_normalized example_lib (value_str (Val (lit ''a - b''))) =
     spec_normalized example_lib (value_str (Val (lit ''a b'')))
   \<and> detect_field_change example_lib (Val (lit ''a - b'')) (Val (lit ''a b'')) ''Name'' \<noteq> None"
  by (simp add: detect_field_change_def Let_def py_eval)

subsection \<open>C3: the order of the classification\<close>

text \<open>
  C3 as stated does not hold: it tests the normalised values for emptiness, the code tests
  the trimmed raw values.  For the old value \<open>-\<close> and the new value \<open>abc\<close> the
  normalised old value is empty and the normalised new value is not, yet the label is
  \<open>Major Change\<close>, not \<open>Added\<close>.
\<close>

theorem classifier_label_counterexample:
  "normalized example_lib (value_str (Val (lit ''-''))) = []
   \<and> normalized example_lib (value_str (Val (lit ''abc''))) = lit ''abc''
   \<and> detect_field_change example_lib (Val (lit ''-'')) (Val (lit ''abc'')) ''Title'' =
     Some \<lparr>field = ''Title'', old_value = lit ''-'', new_value = lit ''abc'',
            change_type = ''Major Change'', similarity = 0\<rparr>"
  by (simp add: detect_field_change_def Let_def py_eval)

text \<open>
  C3, amended: for two values whose normalised forms differ a change is reported, and its
  label is decided in this order: trimmed old value empty and trimmed new value non-empty
  gives \<open>Added\<close>; trimmed old value non-empty and trimmed new value empty gives
  \<open>Removed\<close>; similarity of the normalised values above 0.8 gives the minor change;
  above 0.5 the moderate change; otherwise the major change.  The similarity is the ratio
  that the library returns, compared as a float with the float literals; the reported
  similarity is that ratio rounded to two decimals.
\<close>

theorem classifier_label_order:
  assumes "normalized lib (value_str old_val) \<noteq> normalized lib (value_str new_val)"
  shows "\<exists>ch. detect_field_change lib old_val new_val field_name = Some ch
     \<and> field ch = field_name \<and> old_value ch = value_str old_val \<and> new_value ch = value_str new_val
     \<and> similarity ch =
         round2 lib (sm_ratio lib (normalized lib (value_str old_val))
                                     (normalized lib (value_str new_val)))
     \<and> change_type ch =
         (if value_str old_val = [] \<and> value_str new_val \<noteq> [] then ''Added''
          else if value_str old_val \<noteq> [] \<and> value_str new_val = [] then ''Removed''
          else if sm_ratio lib (normalized lib (value_str old_val))
                    (normalized lib (value_str new_val)) > 3602879701896397 / 4503599627370496
          then ''Minor Change (Possible Typo)''
          else if sm_ratio lib (normalized lib (value_str old_val))
                    (normalized lib (value_str new_val)) > 1 / 2
          then ''Moderate Change''
          else ''Major Change'')"
  using assms
  by (simp add: detect_field_change_def Let_def similarity_score_def float_0_8_def float_0_5_def)

theorem classifier_label_order_witness:
  "normalized example_lib (value_str (Val (lit ''Manager'')))
     \<noteq> normalized example_lib (value_str (Val (lit ''Mananger'')))
   \<and> (\<exists>ch. detect_field_change example_lib (Val (lit ''Manager'')) (Val (lit ''Mananger''))
             ''Title'' = Some ch
      \<and> similarity ch = 93 / 100 \<and> change_type ch = ''Minor Change (Possible Typo)'')"
proof -
  have ne: "normalized example_lib (value_str (Val (lit ''Manager'')))
     \<noteq> normalized example_lib (value_str (Val (lit ''Mananger'')))"
    by (simp add: py_eval)
  have r: "sm_ratio example_lib (normalized example_lib (value_str (Val (lit ''Manager''))))
             (normalized example_lib (value_str (Val (lit ''Mananger'')))) = 14 / 15"
    by (simp add: py_eval Let_def)
  have v: "value_str (Val (lit ''Manager'')) \<noteq> []" "value_str (Val (lit ''Mananger'')) \<noteq> []"
    by (simp_all add: py_eval)
  have rd: "round2 example_lib (14 / 15) = 93 / 100"
    by (simp add: py_eval)
  show ?thesis
    using classifier_label_order [OF ne, of "''Title''"] ne
    by (auto simp: r v rd)
qed

text \<open>
  The emptiness tests are on the trimmed values, and trimming removes Unicode whitespace: a
  cell that holds only a no-break space counts as empty, so a value next to it is \<open>Added\<close>.
\<close>

lemma classifier_unicode_added_example:
  "detect_field_change example_lib (Val [0xA0]) (Val (lit ''abc'')) ''Title'' =
     Some \<lparr>field = ''Title'', old_value = [], new_value = lit ''abc'',
            change_type = ''Added'', similarity = 0\<rparr>"
  by (simp add: detect_field_change_def Let_def py_eval)

subsection \<open>C4: records with an empty identity key\<close>

text \<open>
  C4 as stated does not hold for every record of either source: the keyed mode of core.py
  excludes nothing.  A row whose key column is empty gets the key \<open>("",)\<close> and, when the
  other source has no row with that key, is reported as a removal.
\<close>

theorem empty_key_keyed_mode_counterexample:
  "make_key [(''id'', ''''), (''name'', ''Alice'')] [''id''] = ['''']
   \<and> compare_csv_files [''id'', ''name''] [[(''id'', ''''), (''name'', ''Alice'')]]
        [''id'', ''name''] [] (Some [''id'']) False None
     = Inr \<lparr>added = [],
            removed = [\<lparr>kind = ''removed'', key = StrKey [''''], changes = [],
                        row_old = Some [(''id'', ''''), (''name'', ''Alice'')],
                        row_new = None\<rparr>],
            modified = [], raw_diff = None\<rparr>"
  by (simp add: compare_csv_files_def compare_unordered_def key_map_def make_key_def
        row_get_def dict_fromkeys_def)

text \<open>
  C4, amended: in \<open>find_common_users\<close> a record whose derived identity key
  (\<open>create_user_key\<close>) is empty takes no part in the matching: removing all such records
  from both lists changes neither the matched pairs nor any counter (common users, new
  joiners, resignees), every matched pair has a non-empty key that is the key of both of its
  records, and so a record with an empty key is in no matched pair.  The keyed mode of
  core.py, with explicit key columns, excludes no record: a one-row old source against an
  empty new source gives one removal under the row's key, whatever that key is.
\<close>

theorem empty_key_records_excluded:
  "fst (find_common_users lib self) =
     fst (find_common_users lib (self\<lparr>
       old_data := filter (\<lambda>r. create_user_key lib r \<noteq> []) (old_data self),
       new_data := filter (\<lambda>r. create_user_key lib r \<noteq> []) (new_data self)\<rparr>))
   \<and> statistics (snd (find_common_users lib self)) =
     statistics (snd (find_common_users lib (self\<lparr>
       old_data := filter (\<lambda>r. create_user_key lib r \<noteq> []) (old_data self),
       new_data := filter (\<lambda>r. create_user_key lib r \<noteq> []) (new_data self)\<rparr>)))
   \<and> (\<forall>(k, old_row, new_row) \<in> set (fst (find_common_users lib self)).
         k \<noteq> [] \<and> create_user_key lib old_row = k \<and> create_user_key lib new_row = k
       \<and> old_row \<in> set (old_data self) \<and> new_row \<in> set (new_data self))
   \<and> (\<forall>r. create_user_key lib r = [] \<longrightarrow>
         (\<forall>(k, old_row, new_row) \<in> set (fst (find_common_users lib self)).
            old_row \<noteq> r \<and> new_row \<noteq> r))
   \<and> (keys \<noteq> [] \<longrightarrow>
         compare_csv_files headers1 [row1] headers2 [] (Some keys) False raw =
           Inr \<lparr>added = [],
                 removed = [\<lparr>kind = ''removed'', key = StrKey (make_key row1 keys), changes = [],
                             row_old = Some row1, row_new = None\<rparr>],
                 modified = [], raw_diff = raw\<rparr>)"
proof -
  have pairs: "k \<noteq> [] \<and> create_user_key lib old_row = k \<and> create_user_key lib new_row = k
       \<and> old_row \<in> set (old_data self) \<and> new_row \<in> set (new_data self)"
    if "(k, old_row, new_row) \<in> set (fst (find_common_users lib self))" for k old_row new_row
  proof -
    note o = find_common_users_entry(1) [OF that] and n = find_common_users_entry(2) [OF that]
    from n have n': "(k, new_row) \<in> set (users_by_key lib (new_data self))"
      by (rule map_of_SomeD)
    show ?thesis
      using users_by_key_entry [OF o] users_by_key_entry [OF n'] by simp
  qed
  have c3: "\<forall>(k, old_row, new_row) \<in> set (fst (find_common_users lib self)).
         k \<noteq> [] \<and> create_user_key lib old_row = k \<and> create_user_key lib new_row = k
       \<and> old_row \<in> set (old_data self) \<and> new_row \<in> set (new_data self)"
  proof (intro ballI)
    fix p
    assume p: "p \<in> set (fst (find_common_users lib self))"
    obtain k old_row new_row where "p = (k, old_row, new_row)" by (cases p) auto
    with pairs [of k old_row new_row] p
    show "case p of (k, old_row, new_row) \<Rightarrow>
         k \<noteq> [] \<and> create_user_key lib old_row = k \<and> create_user_key lib new_row = k
       \<and> old_row \<in> set (old_data self) \<and> new_row \<in> set (new_data self)"
      by simp
  qed
  have c4: "\<forall>r. create_user_key lib r = [] \<longrightarrow>
         (\<forall>(k, old_row, new_row) \<in> set (fst (find_common_users lib self)).
            old_row \<noteq> r \<and> new_row \<noteq> r)"
  proof (intro allI impI ballI)
    fix r p
    assume e: "create_user_key lib r = []" and p: "p \<in> set (fst (find_common_users lib self))"
    obtain k old_row new_row where "p = (k, old_row, new_row)" by (cases p) auto
    with pairs [of k old_row new_row] p e
    show "case p of (k, old_row, new_row) \<Rightarrow> old_row \<noteq> r \<and> new_row \<noteq> r"
      by auto
  qed
  have c5: "keys \<noteq> [] \<longrightarrow>
         compare_csv_files headers1 [row1] headers2 [] (Some keys) False raw =
           Inr \<lparr>added = [],
                 removed = [\<lparr>kind = ''removed'', key = StrKey (make_key row1 keys), changes = [],
                             row_old = Some row1, row_new = None\<rparr>],
                 modified = [], raw_diff = raw\<rparr>"
    by (simp add: compare_csv_files_def compare_unordered_def key_map_def)
  show ?thesis
    using find_common_users_filter_fst [of lib self]
      find_common_users_filter_statistics [of lib self] c3 c4 c5
    by (intro conjI)
qed

theorem empty_key_records_excluded_witness:
  "create_user_key example_lib [(''Name'', Val [0xA0, 0x3000]), (''Title'', Val (lit ''Ghost''))] = []
   \<and> fst (find_common_users example_lib
        \<lparr>old_data = [[(''Name'', Val [0xA0, 0x3000]), (''Title'', Val (lit ''Ghost''))],
                     [(''Name'', Val (lit ''Lee'')), (''Title'', Val (lit ''a''))]],
         new_data = [[(''Name'', Val (lit ''LEE'')), (''Title'', Val (lit ''b''))],
                     [(''Name'', Val (lit ''.'')), (''Title'', Val (lit ''Ghost2''))]],
         tracker_changes = [],
         statistics = \<lparr>total_old_records = 2, total_new_records = 2, common_users = 0,
           new_joiners = 0, resignees = 0, users_with_changes = 0, total_field_changes = 0\<rparr>\<rparr>)
      = [(lit ''LEE'', [(''Name'', Val (lit ''Lee'')), (''Title'', Val (lit ''a''))],
                       [(''Name'', Val (lit ''LEE'')), (''Title'', Val (lit ''b''))])]
   \<and> create_user_key example_lib [(''Name'', Val (lit ''Lee'')), (''Title'', Val (lit ''a''))]
       = lit ''LEE''
   \<and> create_user_key example_lib [(''Name'', Val (lit ''LEE'')), (''Title'', Val (lit ''b''))]
       = lit ''LEE''
   \<and> [(''Name'', Val (lit ''Lee'')), (''Title'', Val (lit ''a''))]
        \<noteq> [(''Name'', Val [0xA0, 0x3000]), (''Title'', Val (lit ''Ghost''))]
   \<and> fst (find_common_users example_lib
        \<lparr>old_data = [[(''Name'', Val (lit ''Lee'')), (''Title'', Val (lit ''a''))]],
         new_data = [[(''Name'', Val (lit ''LEE'')), (''Title'', Val (lit ''b''))]],
         tracker_changes = [],
         statistics = \<lparr>total_old_records = 2, total_new_records = 2, common_users = 0,
           new_joiners = 0, resignees = 0, users_with_changes = 0, total_field_changes = 0\<rparr>\<rparr>)
      = [(lit ''LEE'', [(''Name'', Val (lit ''Lee'')), (''Title'', Val (lit ''a''))],
                       [(''Name'', Val (lit ''LEE'')), (''Title'', Val (lit ''b''))])]
   \<and> [''id''] \<noteq> []
   \<and> compare_csv_files [''id''] [[(''id'', '''')]] [''id''] [] (Some [''id'']) False None =
           Inr \<lparr>added = [],
                 removed = [\<lparr>kind = ''removed'', key = StrKey [''''], changes = [],
                             row_old = Some [(''id'', '''')], row_new = None\<rparr>],
                 modified = [], raw_diff = None\<rparr>"
proof -
  let ?ghost = "[(''Name'', Val [0xA0, 0x3000]), (''Title'', Val (lit ''Ghost''))]"
  let ?dot = "[(''Name'', Val (lit ''.'')), (''Title'', Val (lit ''Ghost2''))]"
  let ?o = "[(''Name'', Val (lit ''Lee'')), (''Title'', Val (lit ''a''))]"
  let ?n = "[(''Name'', Val (lit ''LEE'')), (''Title'', Val (lit ''b''))]"
  let ?st = "\<lparr>total_old_records = 2, total_new_records = 2, common_users = 0,
           new_joiners = 0, resignees = 0, users_with_changes = 0, total_field_changes = 0\<rparr>"
  let ?T = "\<lparr>old_data = [?ghost, ?o], new_data = [?n, ?dot], tracker_changes = [],
             statistics = ?st\<rparr>"
  have kg: "create_user_key example_lib ?ghost = []" by (simp add: py_eval)
  have kd: "create_user_key example_lib ?dot = []" by (simp add: py_eval)
  have ko: "create_user_key example_lib ?o = lit ''LEE''" by (simp add: py_eval)
  have kn: "create_user_key example_lib ?n = lit ''LEE''" by (simp add: py_eval)
  have ne: "lit ''LEE'' \<noteq> []" by (simp add: lit_def)
  have f: "fst (find_common_users example_lib ?T) = [(lit ''LEE'', ?o, ?n)]"
    by (simp add: find_common_users_def users_by_key_def kg kd ko kn ne Let_def)
  note t = empty_key_records_excluded [of example_lib ?T "[''id'']" "[''id'']" "[(''id'', '''')]"
      "[''id'']" None]
  have "fst (find_common_users example_lib (?T\<lparr>
       old_data := filter (\<lambda>r. create_user_key example_lib r \<noteq> []) (old_data ?T),
       new_data := filter (\<lambda>r. create_user_key example_lib r \<noteq> []) (new_data ?T)\<rparr>))
      = [(lit ''LEE'', ?o, ?n)]"
    using t f by simp
  then have f': "fst (find_common_users example_lib \<lparr>old_data = [?o], new_data = [?n],
             tracker_changes = [], statistics = ?st\<rparr>) = [(lit ''LEE'', ?o, ?n)]"
    by (simp add: kg kd ko kn ne)
  have d: "?o \<noteq> ?ghost"
    using t f kg by auto
  have core: "compare_csv_files [''id''] [[(''id'', '''')]] [''id''] [] (Some [''id'']) False None =
           Inr \<lparr>added = [],
                 removed = [\<lparr>kind = ''removed'', key = StrKey [''''], changes = [],
                             row_old = Some [(''id'', '''')], row_new = None\<rparr>],
                 modified = [], raw_diff = None\<rparr>"
    using t by (simp add: make_key_def row_get_def)
  show ?thesis
    using kg f ko kn d f' core by simp
qed

subsection \<open>C5: the shape of the identity key\<close>

text \<open>
  C5: the key is the normalised \<open>Name\<close>, followed, when the trimmed \<open>Chi Name\<close> is not
  empty, by the separator \<open>|\<close> and the trimmed \<open>Chi Name\<close>; and different pairs of
  components give different keys.  The code builds the key in this shape but does not keep
  the separator out of the components, so the second half fails: the name \<open>A|B\<close> with
  Chinese name \<open>C\<close>, and the name \<open>A\<close> with Chinese name \<open>B|C\<close>, have different components
  and the same key \<open>A|B|C\<close>.
\<close>

theorem user_key_separator_collision:
  "eng_name_of example_lib [(''Name'', Val (lit ''A|B'')), (''Chi Name'', Val (lit ''C''))] = lit ''A|B''
   \<and> chi_name_of [(''Name'', Val (lit ''A|B'')), (''Chi Name'', Val (lit ''C''))] = lit ''C''
   \<and> eng_name_of example_lib [(''Name'', Val (lit ''A'')), (''Chi Name'', Val (lit ''B|C''))] = lit ''A''
   \<and> chi_name_of [(''Name'', Val (lit ''A'')), (''Chi Name'', Val (lit ''B|C''))] = lit ''B|C''
   \<and> create_user_key example_lib [(''Name'', Val (lit ''A|B'')), (''Chi Name'', Val (lit ''C''))]
       = lit ''A|B|C''
   \<and> create_user_key example_lib [(''Name'', Val (lit ''A'')), (''Chi Name'', Val (lit ''B|C''))]
       = lit ''A|B|C''"
  by (simp add: lit_def strip_def is_space_def whitespace_def split_def replace.simps
        ascii_upper_def example_lib_def isna_def str_def series_get_def normalize_name_def
        eng_name_of_def chi_name_of_def create_user_key_def)

subsection \<open>C10: only five fields are compared\<close>

text \<open>
  C10: \<open>compare_users\<close> looks at the fields Name, Title, Phone, Fax and Location, and at
  no other column.  Changing any other column of the matched records changes neither the
  reported field changes nor the statistics; the field changes that \<open>compare_users\<close> adds
  are exactly what \<open>detect_field_change\<close> returns on these five fields, pair by pair and in
  this order, and the counter of field changes grows by their number; and when the two
  records of every matched pair agree on the five fields, nothing is reported and the
  counter stays as it was.
\<close>

theorem compare_users_only_listed_fields:
  assumes "five = [''Name'', ''Title'', ''Phone'', ''Fax'', ''Location'']"
  shows
   "(list_all2 (\<lambda>(k, o1, n1) (k', o2, n2). k = k'
         \<and> (\<forall>f \<in> set five. series_get o1 f PyNone = series_get o2 f PyNone
                              \<and> series_get n1 f PyNone = series_get n2 f PyNone))
      common common' \<longrightarrow>
      map field_changes (tracker_changes (compare_users lib self common))
        = map field_changes (tracker_changes (compare_users lib self common'))
    \<and> statistics (compare_users lib self common) = statistics (compare_users lib self common'))
   \<and> concat (map field_changes (tracker_changes (compare_users lib self common))) =
       concat (map field_changes (tracker_changes self))
       @ concat (map (\<lambda>(k, old_record, new_record).
           concat (map (\<lambda>f.
             case detect_field_change lib (series_get old_record f PyNone)
                    (series_get new_record f PyNone) f of
               None \<Rightarrow> [] | Some change \<Rightarrow> [change]) five)) common)
   \<and> total_field_changes (statistics (compare_users lib self common)) =
       total_field_changes (statistics self)
       + int (length (concat (map (\<lambda>(k, old_record, new_record).
           concat (map (\<lambda>f.
             case detect_field_change lib (series_get old_record f PyNone)
                    (series_get new_record f PyNone) f of
               None \<Rightarrow> [] | Some change \<Rightarrow> [change]) five)) common)))
   \<and> ((\<forall>(k, old_record, new_record) \<in> set common.
         \<forall>f \<in> set five. series_get old_record f PyNone = series_get new_record f PyNone) \<longrightarrow>
       tracker_changes (compare_users lib self common) = tracker_changes self
     \<and> total_field_changes (statistics (compare_users lib self common))
         = total_field_changes (statistics self)
     \<and> users_with_changes (statistics (compare_users lib self common)) = 0)"
proof -
  have five: "five = fields_to_compare"
    using assms by (simp add: fields_to_compare_def)
  have same: "(\<forall>f \<in> set five. series_get r f PyNone = series_get r' f PyNone)
      \<longleftrightarrow> same_on_compared_fields r r'" for r r'
    by (simp add: same_on_compared_fields_def five)
  have fco: "concat (map (\<lambda>f.
             case detect_field_change lib (series_get old_record f PyNone)
                    (series_get new_record f PyNone) f of
               None \<Rightarrow> [] | Some change \<Rightarrow> [change]) five)
      = field_changes_of lib old_record new_record" for old_record new_record
    by (simp only: field_changes_of_def five)
  have frame: "map field_changes (tracker_changes (compare_users lib self common))
        = map field_changes (tracker_changes (compare_users lib self common'))
    \<and> statistics (compare_users lib self common) = statistics (compare_users lib self common')"
    if "list_all2 (\<lambda>(k, o1, n1) (k', o2, n2). k = k'
         \<and> (\<forall>f \<in> set five. series_get o1 f PyNone = series_get o2 f PyNone
                              \<and> series_get n1 f PyNone = series_get n2 f PyNone))
      common common'"
  proof -
    have "list_all2 (\<lambda>(k, o1, n1) (k', o2, n2).
             k = k' \<and> same_on_compared_fields o1 o2 \<and> same_on_compared_fields n1 n2)
           common common'"
      using that by (rule list_all2_mono) (auto simp: same_on_compared_fields_def five)
    note sim = fold_compare_user_sim [OF this refl refl, of lib self "[]"]
    show ?thesis
      using sim by (simp add: compare_users_def split_beta)
  qed
  note ch = fold_compare_user_changes [of lib common self "[]"]
  have exact: "concat (map field_changes (tracker_changes (compare_users lib self common))) =
       concat (map field_changes (tracker_changes self))
       @ concat (map (\<lambda>(k, old_record, new_record).
           field_changes_of lib old_record new_record) common)"
    using ch by (simp add: compare_users_def split_beta)
  have count: "total_field_changes (statistics (compare_users lib self common)) =
       total_field_changes (statistics self)
       + int (length (concat (map (\<lambda>(k, old_record, new_record).
           field_changes_of lib old_record new_record) common)))"
    using ch by (simp add: compare_users_def split_beta)
  have none: "tracker_changes (compare_users lib self common) = tracker_changes self
     \<and> total_field_changes (statistics (compare_users lib self common))
         = total_field_changes (statistics self)
     \<and> users_with_changes (statistics (compare_users lib self common)) = 0"
    if "\<forall>(k, old_record, new_record) \<in> set common.
         \<forall>f \<in> set five. series_get old_record f PyNone = series_get new_record f PyNone"
  proof -
    have "\<forall>(k, old_record, new_record) \<in> set common.
             same_on_compared_fields old_record new_record"
      using that by (auto simp: same_on_compared_fields_def five)
    note un = fold_compare_user_unchanged [OF this, of lib self "[]"]
    show ?thesis by (simp add: compare_users_def un)
  qed
  show ?thesis
    using frame exact count none unfolding fco by blast
qed

theorem compare_users_only_listed_fields_witness:
  "list_all2 (\<lambda>(k, o1, n1) (k', o2, n2). k = k'
         \<and> (\<forall>f \<in> set [''Name'', ''Title'', ''Phone'', ''Fax'', ''Location''].
               series_get o1 f PyNone = series_get o2 f PyNone
             \<and> series_get n1 f PyNone = series_get n2 f PyNone))
      [(lit ''LEE'', [(''Name'', Val (lit ''Lee'')), (''Title'', Val (lit ''a'')), (''Email'', Val (lit ''p''))],
                     [(''Name'', Val (lit ''Lee'')), (''Title'', Val (lit ''b'')), (''Email'', Val (lit ''q''))])]
      [(lit ''LEE'', [(''Name'', Val (lit ''Lee'')), (''Title'', Val (lit ''a'')), (''Email'', Val (lit ''r''))],
                     [(''Name'', Val (lit ''Lee'')), (''Title'', Val (lit ''b''))])]
   \<and> map field_changes (tracker_changes (compare_users example_lib
        \<lparr>old_data = [], new_data = [], tracker_changes = [],
         statistics = \<lparr>total_old_records = 0, total_new_records = 0, common_users = 0,
           new_joiners = 0, resignees = 0, users_with_changes = 0, total_field_changes = 0\<rparr>\<rparr>
        [(lit ''LEE'', [(''Name'', Val (lit ''Lee'')), (''Title'', Val (lit ''a'')), (''Email'', Val (lit ''p''))],
                       [(''Name'', Val (lit ''Lee'')), (''Title'', Val (lit ''b'')), (''Email'', Val (lit ''q''))])]))
     = map field_changes (tracker_changes (compare_users example_lib
        \<lparr>old_data = [], new_data = [], tracker_changes = [],
         statistics = \<lparr>total_old_records = 0, total_new_records = 0, common_users = 0,
           new_joiners = 0, resignees = 0, users_with_changes = 0, total_field_changes = 0\<rparr>\<rparr>
        [(lit ''LEE'', [(''Name'', Val (lit ''Lee'')), (''Title'', Val (lit ''a'')), (''Email'', Val (lit ''r''))],
                       [(''Name'', Val (lit ''Lee'')), (''Title'', Val (lit ''b''))])]))
   \<and> concat (map field_changes (tracker_changes (compare_users example_lib
        \<lparr>old_data = [], new_data = [], tracker_changes = [],
         statistics = \<lparr>total_old_records = 0, total_new_records = 0, common_users = 0,
           new_joiners = 0, resignees = 0, users_with_changes = 0, total_field_changes = 0\<rparr>\<rparr>
        [(lit ''LEE'', [(''Name'', Val (lit ''Lee'')), (''Title'', Val (lit ''a'')), (''Email'', Val (lit ''p''))],
                       [(''Name'', Val (lit ''Lee'')), (''Title'', Val (lit ''b'')), (''Email'', Val (lit ''q''))])])))
     = [\<lparr>field = ''Title'', old_value = lit ''a'', new_value = lit ''b'',
          change_type = ''Major Change'', similarity = 0\<rparr>]
   \<and> map (\<lambda>f. series_get [(''Name'', Val (lit ''Lee'')), (''Title'', Val (lit ''a'')), (''Email'', Val (lit ''p''))] f PyNone)
         [''Name'', ''Title'', ''Phone'', ''Fax'', ''Location'']
     = map (\<lambda>f. series_get [(''Name'', Val (lit ''Lee'')), (''Title'', Val (lit ''a'')), (''Email'', Val (lit ''q''))] f PyNone)
         [''Name'', ''Title'', ''Phone'', ''Fax'', ''Location'']
   \<and> tracker_changes (compare_users example_lib
        \<lparr>old_data = [], new_data = [], tracker_changes = [],
         statistics = \<lparr>total_old_records = 0, total_new_records = 0, common_users = 0,
           new_joiners = 0, resignees = 0, users_with_changes = 0, total_field_changes = 0\<rparr>\<rparr>
        [(lit ''LEE'', [(''Name'', Val (lit ''Lee'')), (''Title'', Val (lit ''a'')), (''Email'', Val (lit ''p''))],
                       [(''Name'', Val (lit ''Lee'')), (''Title'', Val (lit ''a'')), (''Email'', Val (lit ''q''))])]) = []
   \<and> total_field_changes (statistics (compare_users example_lib
        \<lparr>old_data = [], new_data = [], tracker_changes = [],
         statistics = \<lparr>total_old_records = 0, total_new_records = 0, common_users = 0,
           new_joiners = 0, resignees = 0, users_with_changes = 0, total_field_changes = 0\<rparr>\<rparr>
        [(lit ''LEE'', [(''Name'', Val (lit ''Lee'')), (''Title'', Val (lit ''a'')), (''Email'', Val (lit ''p''))],
                       [(''Name'', Val (lit ''Lee'')), (''Title'', Val (lit ''a'')), (''Email'', Val (lit ''q''))])])) = 0"
proof -
  let ?T = "\<lparr>old_data = [], new_data = [], tracker_changes = [],
         statistics = \<lparr>total_old_records = 0, total_new_records = 0, common_users = 0,
           new_joiners = 0, resignees = 0, users_with_changes = 0, total_field_changes = 0\<rparr>\<rparr>"
  let ?o = "[(''Name'', Val (lit ''Lee'')), (''Title'', Val (lit ''a'')), (''Email'', Val (lit ''p''))]"
  let ?n = "[(''Name'', Val (lit ''Lee'')), (''Title'', Val (lit ''b'')), (''Email'', Val (lit ''q''))]"
  let ?o' = "[(''Name'', Val (lit ''Lee'')), (''Title'', Val (lit ''a'')), (''Email'', Val (lit ''r''))]"
  let ?n' = "[(''Name'', Val (lit ''Lee'')), (''Title'', Val (lit ''b''))]"
  let ?m = "[(''Name'', Val (lit ''Lee'')), (''Title'', Val (lit ''a'')), (''Email'', Val (lit ''q''))]"
  let ?five = "[''Name'', ''Title'', ''Phone'', ''Fax'', ''Location'']"
  have l: "list_all2 (\<lambda>(k, o1, n1) (k', o2, n2). k = k'
         \<and> (\<forall>f \<in> set ?five. series_get o1 f PyNone = series_get o2 f PyNone
                              \<and> series_get n1 f PyNone = series_get n2 f PyNone))
      [(lit ''LEE'', ?o, ?n)] [(lit ''LEE'', ?o', ?n')]"
    by (simp add: series_get_def)
  have u: "\<forall>(k, old_record, new_record) \<in> set [(lit ''LEE'', ?o, ?m)].
         \<forall>f \<in> set ?five. series_get old_record f PyNone = series_get new_record f PyNone"
    by (simp add: series_get_def)
  have m: "map (\<lambda>f. series_get ?o f PyNone) ?five = map (\<lambda>f. series_get ?m f PyNone) ?five"
    by (simp add: series_get_def)
  have d: "concat (map (\<lambda>f.
             case detect_field_change example_lib (series_get ?o f PyNone)
                    (series_get ?n f PyNone) f of
               None \<Rightarrow> [] | Some change \<Rightarrow> [change]) ?five)
      = [\<lparr>field = ''Title'', old_value = lit ''a'', new_value = lit ''b'',
          change_type = ''Major Change'', similarity = 0\<rparr>]"
    by (simp add: detect_field_change_def Let_def py_eval)
  note t1 = compare_users_only_listed_fields [OF refl,
      of "[(lit ''LEE'', ?o, ?n)]" "[(lit ''LEE'', ?o', ?n')]" example_lib ?T]
  note t2 = compare_users_only_listed_fields [OF refl,
      of "[(lit ''LEE'', ?o, ?m)]" "[(lit ''LEE'', ?o, ?m)]" example_lib ?T]
  have c1: "map field_changes (tracker_changes (compare_users example_lib ?T [(lit ''LEE'', ?o, ?n)]))
     = map field_changes (tracker_changes (compare_users example_lib ?T [(lit ''LEE'', ?o', ?n')]))"
    using t1 l by blast
  have c2: "concat (map field_changes (tracker_changes
       (compare_users example_lib ?T [(lit ''LEE'', ?o, ?n)])))
     = [\<lparr>field = ''Title'', old_value = lit ''a'', new_value = lit ''b'',
          change_type = ''Major Change'', similarity = 0\<rparr>]"
    using t1 d by simp
  have c3: "tracker_changes (compare_users example_lib ?T [(lit ''LEE'', ?o, ?m)]) = []
     \<and> total_field_changes (statistics (compare_users example_lib ?T [(lit ''LEE'', ?o, ?m)])) = 0"
    using t2 u by simp
  show ?thesis
    using l c1 c2 m c3 by blast
qed

end
